theory Spec2Isabelle
  imports Main "HOL-Library.Char_ord" "HOL-Library.List_Lexorder"
begin

section \<open>JavaScript strings\<close>

text \<open>
  A JavaScript string is modelled as a \<^typ>\<open>string\<close> (a list of characters). The
  functions below are the \<open>String.prototype\<close> and \<open>Array.prototype\<close> methods the bridge
  code calls, written out on lists.
\<close>

definition sq :: char where
  "sq = CHR 0x27"

definition dq :: char where
  "dq = CHR 0x22"

definition bs :: char where
  "bs = CHR 0x5C"

definition nl :: char where
  "nl = CHR 0x0A"

definition sp :: char where
  "sp = CHR 0x20"

definition tab :: char where
  "tab = CHR 0x09"

text \<open>\<open>s.startsWith(p)\<close>.\<close>

definition startsWith :: "string \<Rightarrow> string \<Rightarrow> bool" where
  "startsWith s p = (take (length p) s = p)"

text \<open>\<open>s.includes(p)\<close>: \<open>p\<close> occurs somewhere in \<open>s\<close>.\<close>

fun includesStr :: "string \<Rightarrow> string \<Rightarrow> bool" where
  "includesStr [] p = (p = [])"
| "includesStr (c # cs) p = (startsWith (c # cs) p \<or> includesStr cs p)"

text \<open>\<open>xs.join(d)\<close> of \<open>Array.prototype\<close>.\<close>

fun joinWith :: "string \<Rightarrow> string list \<Rightarrow> string" where
  "joinWith d [] = []"
| "joinWith d [x] = x"
| "joinWith d (x # y # ys) = x @ d @ joinWith d (y # ys)"

text \<open>\<open>s.split(d)\<close> for a one-character separator: never the empty list.\<close>

fun splitOn :: "char \<Rightarrow> string \<Rightarrow> string list" where
  "splitOn d [] = [[]]"
| "splitOn d (c # cs) =
     (if c = d then [] # splitOn d cs
      else (case splitOn d cs of
              [] \<Rightarrow> [[c]]
            | w # ws \<Rightarrow> (c # w) # ws))"

text \<open>
  \<open>s.trim()\<close>: white space is removed at both ends. The white space of the 8-bit
  character range is tab, line feed, vertical tab, form feed, carriage return, space and
  the no-break space.
\<close>

definition is_space :: "char \<Rightarrow> bool" where
  "is_space c = (c \<in> set [CHR 0x09, CHR 0x0A, CHR 0x0B, CHR 0x0C, CHR 0x0D, CHR 0x20, CHR 0xA0])"

definition trim :: "string \<Rightarrow> string" where
  "trim s = rev (dropWhile is_space (rev (dropWhile is_space s)))"

text \<open>\<open>s.toLowerCase()\<close> on the ASCII letters.\<close>

definition lower_char :: "char \<Rightarrow> char" where
  "lower_char c =
     (if CHR ''A'' \<le> c \<and> c \<le> CHR ''Z'' then char_of (of_char c + (32::nat)) else c)"

definition toLowerCase :: "string \<Rightarrow> string" where
  "toLowerCase s = map lower_char s"

text \<open>JavaScript truthiness of an optional string: \<open>undefined\<close> and \<open>''\<close> are falsy.\<close>

fun truthy :: "string option \<Rightarrow> bool" where
  "truthy None = False"
| "truthy (Some s) = (s \<noteq> [])"

text \<open>\<open>x || d\<close> on an optional string.\<close>

fun orElse :: "string option \<Rightarrow> string \<Rightarrow> string" where
  "orElse None d = d"
| "orElse (Some s) d = (if s = [] then d else s)"

section \<open>Shell escaping\<close>

text \<open>
  The character classes of the two regular expressions of \<open>shellEscape\<close>:
  \<open>[a-zA-Z0-9._\-/=]\<close> and, on Windows, \<open>[a-zA-Z0-9._\-/\\:=]\<close>.
\<close>

definition is_alnum :: "char \<Rightarrow> bool" where
  "is_alnum c =
     ((CHR ''a'' \<le> c \<and> c \<le> CHR ''z'') \<or> (CHR ''A'' \<le> c \<and> c \<le> CHR ''Z'') \<or>
      (CHR ''0'' \<le> c \<and> c \<le> CHR ''9''))"

definition safe_posix :: "char \<Rightarrow> bool" where
  "safe_posix c = (is_alnum c \<or> c \<in> set ''._-/='')"

definition safe_win :: "char \<Rightarrow> bool" where
  "safe_win c = (is_alnum c \<or> c \<in> set ''._-/'' \<or> c = bs \<or> c \<in> set '':='')"

text \<open>\<open>/^[...]+$/.test(arg)\<close>: one character at least, and every one in the class.\<close>

definition matches_class :: "(char \<Rightarrow> bool) \<Rightarrow> string \<Rightarrow> bool" where
  "matches_class cls arg = (arg \<noteq> [] \<and> list_all cls arg)"

text \<open>\<open>arg.replace(/c/g, r)\<close>: every occurrence of the character is replaced.\<close>

definition replace_char :: "char \<Rightarrow> string \<Rightarrow> string \<Rightarrow> string" where
  "replace_char c r arg = concat (map (\<lambda>x. if x = c then r else [x]) arg)"

text \<open>
  \<open>shellEscape\<close> of the PTY bridge. The first argument is the module constant
  \<open>isWin\<close>.
\<close>

definition shellEscape :: "bool \<Rightarrow> string \<Rightarrow> string" where
  "shellEscape isWin arg =
     (if isWin then
        (if matches_class safe_win arg then arg
         else [dq] @ replace_char dq [dq, dq] arg @ [dq])
      else
        (if matches_class safe_posix arg then arg
         else [sq] @ replace_char sq [sq, bs, sq, sq] arg @ [sq]))"

text \<open>The anonymous escaping function of \<open>spawnClaude\<close>'s shell fallback.\<close>

definition cmdPart :: "string \<Rightarrow> string" where
  "cmdPart a =
     (if matches_class safe_posix a then a
      else [sq] @ replace_char sq [sq, bs, sq, sq] a @ [sq])"

text \<open>\<open>[claudePath, ...args].map(escape).join(' ')\<close>.\<close>

definition commandLine :: "(string \<Rightarrow> string) \<Rightarrow> string list \<Rightarrow> string" where
  "commandLine esc parts = joinWith [sp] (map esc parts)"

subsection \<open>The quoting rules of the POSIX shell\<close>

text \<open>
  The reading side of the round trip is the shell's own, not the repository's: the
  quoting rules of the POSIX shell command language (section 2.2), for the part of the
  language the escaped command lines use. Outside quotes a backslash keeps the next
  character (a backslash before a line feed is a line continuation), a single quote
  opens a quoted part that runs to the next single quote and keeps every character in
  between, blanks and line feeds end a word. Every other character with a meaning of its
  own to the shell (operators, expansions, patterns, double quotes, comments) is outside
  the model: the reader answers \<open>None\<close> there, as it does for an unclosed quote.
\<close>

definition sh_special :: "char \<Rightarrow> bool" where
  "sh_special c = (c \<in> set ''|&;<>()$`*?[]#~%!{}^'' \<or> c = dq)"

definition sh_blank :: "char \<Rightarrow> bool" where
  "sh_blank c = (c = sp \<or> c = tab \<or> c = nl)"

datatype sh_mode = Unquoted | InSingle

fun push :: "string option \<Rightarrow> char \<Rightarrow> string option" where
  "push None c = Some [c]"
| "push (Some w) c = Some (w @ [c])"

fun opened :: "string option \<Rightarrow> string option" where
  "opened None = Some []"
| "opened (Some w) = Some w"

fun sh_read :: "sh_mode \<Rightarrow> string option \<Rightarrow> string \<Rightarrow> string list option" where
  "sh_read Unquoted cur [] = Some (case cur of None \<Rightarrow> [] | Some w \<Rightarrow> [w])"
| "sh_read InSingle cur [] = None"
| "sh_read InSingle cur (c # cs) =
     (if c = sq then sh_read Unquoted cur cs else sh_read InSingle (push cur c) cs)"
| "sh_read Unquoted cur (c # cs) =
     (if c = sq then sh_read InSingle (opened cur) cs
      else if c = bs then
        (case cs of
           [] \<Rightarrow> None
         | d # ds \<Rightarrow> if d = nl then sh_read Unquoted cur ds else sh_read Unquoted (push cur d) ds)
      else if sh_blank c then
        (case cur of
           None \<Rightarrow> sh_read Unquoted None cs
         | Some w \<Rightarrow> map_option (Cons w) (sh_read Unquoted None cs))
      else if sh_special c then None
      else sh_read Unquoted (push cur c) cs)"

text \<open>The words the shell makes of a command line.\<close>

definition sh_words :: "string \<Rightarrow> string list option" where
  "sh_words line = sh_read Unquoted None line"

subsection \<open>The double-quoted strings of PowerShell\<close>







section \<open>The host\<close>

text \<open>
  What the bridge reads from its host: the platform, the home and temporary
  directories, the working directory and the environment of the host process, and the
  library calls whose answers depend on the machine (the functions of \<open>path\<close>, the
  read-only file system calls, \<open>execSync\<close>, \<open>pty.spawn\<close> and the operations of a PTY
  handle). A call that throws answers \<open>Inl\<close> with the message of the exception. The
  file system of a host is a snapshot: it does not change while the environment builder,
  the resolver or the scanner runs. Time stamps are whole milliseconds, and the size of
  a file is carried in \<open>fsize\<close>.
\<close>

record stats =
  isDirectory :: bool
  isFile :: bool
  fsize :: nat
  mtimeMs :: int

record host =
  isWin :: bool
  homedir :: string
  tmpdir :: string
  process_cwd :: string
  env :: "string \<rightharpoonup> string"
  join :: "string list \<Rightarrow> string"
  resolve :: "string \<Rightarrow> string"
  dirname :: "string \<Rightarrow> string"
  extname :: "string \<Rightarrow> string"
  relative :: "string \<Rightarrow> string \<Rightarrow> string"
  existsSync :: "string \<Rightarrow> bool"
  readdirSync :: "string \<Rightarrow> string + string list"
  statSync :: "string \<Rightarrow> string + stats"
  realpathSync :: "string \<Rightarrow> string + string"
  readFileSync :: "string \<Rightarrow> string + string"
  execSync :: "string \<Rightarrow> (string \<rightharpoonup> string) \<Rightarrow> string + string"
  ptySpawn :: "string \<Rightarrow> string list \<Rightarrow> string \<Rightarrow> (string \<rightharpoonup> string) \<Rightarrow> string + nat"
  ptyWrite :: "nat \<Rightarrow> string \<Rightarrow> string + unit"
  ptyResize :: "nat \<Rightarrow> int \<Rightarrow> int \<Rightarrow> string + unit"
  ptyKill :: "nat \<Rightarrow> string + unit"
  isDestroyed :: "nat \<Rightarrow> bool"

text \<open>\<open>path.delimiter\<close> and \<open>path.sep\<close> of Node.\<close>

definition delimiter :: "host \<Rightarrow> char" where
  "delimiter h = (if isWin h then CHR '';'' else CHR '':'')"

definition sep :: "host \<Rightarrow> string" where
  "sep h = (if isWin h then [bs] else ''/'')"

section \<open>Environment builder\<close>

text \<open>
  \<open>getLoginShellPath\<close> of the PTY bridge. The module variable \<open>_cachedLoginPath\<close> is
  passed in and returned with the result.
\<close>

definition getLoginShellPath :: "host \<Rightarrow> string option \<Rightarrow> string \<times> string option" where
  "getLoginShellPath h cached =
     (case cached of
        Some p \<Rightarrow> (p, cached)
      | None \<Rightarrow>
          if isWin h then ([], Some [])
          else
            (let shell = orElse (env h ''SHELL'') ''/bin/zsh'' in
             case execSync h (shell @ '' -ilc '' @ [sq] @ ''echo $PATH'' @ [sq]) (env h) of
               Inr out \<Rightarrow>
                 (let result = trim out in
                  if result \<noteq> [] then (result, Some result) else ([], Some []))
             | Inl e \<Rightarrow> ([], Some [])))"

text \<open>\<open>versions.sort().reverse()[0]\<close>, called on a non-empty array only.\<close>

definition latest :: "string list \<Rightarrow> string" where
  "latest versions = hd (rev (sort versions))"

definition is_digit :: "char \<Rightarrow> bool" where
  "is_digit c = (CHR ''0'' \<le> c \<and> c \<le> CHR ''9'')"

text \<open>\<open>/^v?\d+/.test(v)\<close>.\<close>

fun is_version :: "string \<Rightarrow> bool" where
  "is_version [] = False"
| "is_version (c # cs) =
     (if c = CHR ''v'' then (case cs of [] \<Rightarrow> False | d # ds \<Rightarrow> is_digit d) else is_digit c)"

text \<open>The version-manager directory of the search path, on POSIX: at most one entry.\<close>

definition nvmPaths :: "host \<Rightarrow> string list" where
  "nvmPaths h =
     (let nvmDir = join h [homedir h, ''.nvm'', ''versions'', ''node''] in
      if existsSync h nvmDir then
        (case readdirSync h nvmDir of
           Inr versions \<Rightarrow>
             if length versions > 0 then [join h [nvmDir, latest versions, ''bin'']] else []
         | Inl e \<Rightarrow> [])
      else [])"

definition nvmWinPaths :: "host \<Rightarrow> string list" where
  "nvmWinPaths h =
     (let nvmWinDir = join h [homedir h, ''AppData'', ''Roaming'', ''nvm''] in
      if existsSync h nvmWinDir then
        (case readdirSync h nvmWinDir of
           Inr names \<Rightarrow>
             (let versions = filter is_version names in
              if length versions > 0 then [join h [nvmWinDir, latest versions]] else [])
         | Inl e \<Rightarrow> [])
      else [])"

text \<open>The array \<open>extraPaths\<close> of the PTY bridge's \<open>buildUserPath\<close>.\<close>

definition extraPaths :: "host \<Rightarrow> string list" where
  "extraPaths h =
     (if isWin h then
        [join h [homedir h, ''AppData'', ''Roaming'', ''npm''],
         join h [homedir h, ''.cargo'', ''bin''],
         join h [homedir h, ''.bun'', ''bin'']] @ nvmWinPaths h
      else
        [join h [homedir h, ''.npm-global'', ''bin''],
         join h [homedir h, ''.local'', ''bin''],
         join h [homedir h, ''.bun'', ''bin''],
         ''/usr/local/bin'',
         ''/opt/homebrew/bin'',
         join h [homedir h, ''.cargo'', ''bin'']] @ nvmPaths h)"

text \<open>
  \<open>buildUserPath\<close> of the PTY bridge, with the login-path cache passed through.
  \<open>filter(Boolean)\<close> drops the empty strings.
\<close>

definition buildUserPath :: "host \<Rightarrow> string option \<Rightarrow> string \<times> string option" where
  "buildUserPath h cached =
     (let (loginPath, cached') = getLoginShellPath h cached;
          systemPath = orElse (env h ''PATH'') []
      in (joinWith [delimiter h] (filter (\<lambda>p. p \<noteq> []) (extraPaths h @ [loginPath, systemPath])),
          cached'))"

text \<open>\<open>buildUserPath\<close> and \<open>getSpawnEnv\<close> of the CLI bridge (POSIX only, no login path).\<close>

definition cli_extraPaths :: "host \<Rightarrow> string list" where
  "cli_extraPaths h =
     [join h [homedir h, ''.npm-global'', ''bin''],
      join h [homedir h, ''.local'', ''bin''],
      join h [homedir h, ''.bun'', ''bin''],
      ''/usr/local/bin'',
      ''/opt/homebrew/bin'',
      join h [homedir h, ''.cargo'', ''bin'']] @ nvmPaths h"

definition cli_buildUserPath :: "host \<Rightarrow> string" where
  "cli_buildUserPath h =
     (let systemPath = orElse (env h ''PATH'') ''/usr/bin:/bin''
      in joinWith '':'' (cli_extraPaths h @ [systemPath]))"

definition getSpawnEnv :: "host \<Rightarrow> (string \<rightharpoonup> string)" where
  "getSpawnEnv h = (env h)(''PATH'' \<mapsto> cli_buildUserPath h)"

text \<open>The entries of a search path: the string split at the delimiter.\<close>

definition pathEntries :: "char \<Rightarrow> string \<Rightarrow> string list" where
  "pathEntries d p = splitOn d p"

section \<open>Binary resolver\<close>

text \<open>The loop \<open>for (const c of candidates) if (existsSync(c)) return c\<close>.\<close>

fun firstExisting :: "host \<Rightarrow> string list \<Rightarrow> string option" where
  "firstExisting h [] = None"
| "firstExisting h (c # cs) = (if existsSync h c then Some c else firstExisting h cs)"

definition candidates :: "host \<Rightarrow> string list" where
  "candidates h =
     (if isWin h then
        [join h [homedir h, ''AppData'', ''Roaming'', ''npm'', ''claude.cmd''],
         join h [homedir h, ''AppData'', ''Roaming'', ''npm'', ''claude''],
         join h [homedir h, ''.npm-global'', ''bin'', ''claude''],
         join h [homedir h, ''.bun'', ''bin'', ''claude'']]
      else
        [join h [homedir h, ''.npm-global'', ''bin'', ''claude''],
         ''/usr/local/bin/claude'',
         join h [homedir h, ''.local'', ''bin'', ''claude''],
         join h [homedir h, ''.bun'', ''bin'', ''claude''],
         ''/opt/homebrew/bin/claude''])"

text \<open>\<open>getClaudePath\<close> of the PTY bridge.\<close>

definition getClaudePath :: "host \<Rightarrow> string option \<Rightarrow> string \<times> string option" where
  "getClaudePath h cached =
     (case firstExisting h (candidates h) of
        Some c \<Rightarrow> (c, cached)
      | None \<Rightarrow>
          (let (richPath, cached') = buildUserPath h cached;
               cmd = (if isWin h then ''where claude'' else ''which claude'')
           in case execSync h cmd ((env h)(''PATH'' \<mapsto> richPath)) of
                Inr out \<Rightarrow> (hd (splitOn nl (trim out)), cached')
              | Inl e \<Rightarrow> (''claude'', cached')))"

text \<open>\<open>getClaudePath\<close> of the CLI bridge.\<close>

definition cli_candidates :: "host \<Rightarrow> string list" where
  "cli_candidates h =
     [join h [homedir h, ''.npm-global'', ''bin'', ''claude''],
      ''/usr/local/bin/claude'',
      join h [homedir h, ''.local'', ''bin'', ''claude''],
      join h [homedir h, ''.bun'', ''bin'', ''claude''],
      ''/opt/homebrew/bin/claude'']"

definition cli_getClaudePath :: "host \<Rightarrow> string" where
  "cli_getClaudePath h =
     (case firstExisting h (cli_candidates h) of
        Some c \<Rightarrow> c
      | None \<Rightarrow>
          (case execSync h ''which claude'' (getSpawnEnv h) of
             Inr out \<Rightarrow> trim out
           | Inl e \<Rightarrow> ''claude''))"

text \<open>\<open>s.endsWith(p)\<close>.\<close>

definition endsWith :: "string \<Rightarrow> string \<Rightarrow> bool" where
  "endsWith s p = (length p \<le> length s \<and> drop (length s - length p) s = p)"

text \<open>
  \<open>resolveClaudeScript\<close> of the CLI bridge: the real path of the launcher when it is
  a JavaScript file or a script with a shebang line, otherwise \<open>null\<close>.
\<close>

definition resolveClaudeScript :: "host \<Rightarrow> string \<Rightarrow> string option" where
  "resolveClaudeScript h claudePath =
     (case realpathSync h claudePath of
        Inl e \<Rightarrow> None
      | Inr realPath \<Rightarrow>
          if endsWith realPath ''.js'' \<or> endsWith realPath ''.mjs'' then Some realPath
          else
            (case readFileSync h realPath of
               Inl e \<Rightarrow> None
             | Inr text \<Rightarrow>
                 (let content = take 200 text in
                  if startsWith content ''#!/'' then Some realPath else None)))"

text \<open>
  \<open>findNodePath\<close> of the CLI bridge. It takes no argument: the interpreter is looked
  for without regard to the launcher.
\<close>

definition findNodePath :: "host \<Rightarrow> string option" where
  "findNodePath h =
     (let nvmDir = join h [homedir h, ''.nvm'', ''versions'', ''node''];
          fromNvm =
            (if existsSync h nvmDir then
               (case readdirSync h nvmDir of
                  Inr versions \<Rightarrow>
                    if length versions > 0 then
                      (let nodePath = join h [nvmDir, latest versions, ''bin'', ''node'']
                       in if existsSync h nodePath then Some nodePath else None)
                    else None
                | Inl e \<Rightarrow> None)
             else None)
      in case fromNvm of
           Some nodePath \<Rightarrow> Some nodePath
         | None \<Rightarrow>
             (case firstExisting h
                     [''/usr/local/bin/node'',
                      ''/opt/homebrew/bin/node'',
                      join h [homedir h, ''.local'', ''bin'', ''node''],
                      join h [homedir h, ''.bun'', ''bin'', ''node'']] of
                Some c \<Rightarrow> Some c
              | None \<Rightarrow>
                  (case execSync h ''which node'' (getSpawnEnv h) of
                     Inr out \<Rightarrow> Some (trim out)
                   | Inl e \<Rightarrow> None)))"

text \<open>
  The three constants \<open>registerCliBridgeHandlers\<close> computes first: \<open>claudePath\<close>,
  \<open>claudeScript\<close> and \<open>nodePath\<close>.
\<close>

definition cli_resolve :: "host \<Rightarrow> string \<times> string option \<times> string option" where
  "cli_resolve h =
     (let claudePath = cli_getClaudePath h;
          claudeScript = resolveClaudeScript h claudePath;
          nodePath = findNodePath h
      in (claudePath, claudeScript, nodePath))"

section \<open>A sample host\<close>

text \<open>
  A POSIX host on which the definitions are evaluated at concrete inputs: no candidate
  path of the launcher exists, the login shell fails, and \<open>which claude\<close> finds the
  launcher in a directory of its own. \<open>posix_join\<close> and its companions stand for the functions of \<open>path\<close> on
  absolute paths that are already normal.
\<close>

definition posix_join :: "string list \<Rightarrow> string" where
  "posix_join parts = joinWith ''/'' (filter (\<lambda>p. p \<noteq> []) parts)"

definition posix_dirname :: "string \<Rightarrow> string" where
  "posix_dirname p = rev (drop 1 (dropWhile (\<lambda>c. c \<noteq> CHR ''/'') (rev p)))"

definition posix_extname :: "string \<Rightarrow> string" where
  "posix_extname p =
     (let base = rev (takeWhile (\<lambda>c. c \<noteq> CHR ''/'') (rev p));
          after = rev (takeWhile (\<lambda>c. c \<noteq> CHR ''.'') (rev base))
      in if CHR ''.'' \<notin> set base \<or> base = ''..'' \<or> length after + 1 = length base then []
         else CHR ''.'' # after)"

definition posix_relative :: "string \<Rightarrow> string \<Rightarrow> string" where
  "posix_relative from to = drop (length from + 1) to"

definition sample_host :: host where
  "sample_host =
     \<lparr> isWin = False,
       homedir = ''/home/u'',
       tmpdir = ''/tmp'',
       process_cwd = ''/'',
       env = [''PATH'' \<mapsto> ''/usr/local/bin:/usr/bin'', ''SHELL'' \<mapsto> ''/bin/sh''],
       join = posix_join,
       resolve = (\<lambda>p. p),
       dirname = posix_dirname,
       extname = posix_extname,
       relative = posix_relative,
       existsSync = (\<lambda>p. False),
       readdirSync = (\<lambda>p. Inl ''ENOENT''),
       statSync = (\<lambda>p. Inl ''ENOENT''),
       realpathSync = (\<lambda>p. Inl ''ENOENT''),
       readFileSync = (\<lambda>p. Inl ''ENOENT''),
       execSync = (\<lambda>cmd e.
         if cmd = ''which claude'' then Inr (''/opt/claude/bin/claude'' @ [nl])
         else Inl ''Command failed''),
       ptySpawn = (\<lambda>shell args cwd e. Inr 4242),
       ptyWrite = (\<lambda>pid d. Inr ()),
       ptyResize = (\<lambda>pid cols rows. Inr ()),
       ptyKill = (\<lambda>pid. Inr ()),
       isDestroyed = (\<lambda>w. False) \<rparr>"

text \<open>The sample host with one candidate installed, and with failing locate commands.\<close>

definition host_found :: host where
  "host_found = sample_host\<lparr>existsSync := (\<lambda>p. p = ''/usr/local/bin/claude'')\<rparr>"

definition host_fail :: host where
  "host_fail = sample_host\<lparr>execSync := (\<lambda>cmd e. Inl ''Command failed'')\<rparr>"

text \<open>A host with Node installed and no launcher: every locate command fails.\<close>

definition host_node :: host where
  "host_node = host_fail\<lparr>existsSync := (\<lambda>p. p = ''/usr/local/bin/node'')\<rparr>"

section \<open>PTY session manager\<close>

definition ALLOWED_MODELS :: "string list" where
  "ALLOWED_MODELS =
     [''opus'', ''sonnet'', ''haiku'',
      ''claude-3-opus'', ''claude-3-sonnet'', ''claude-3-haiku'',
      ''claude-sonnet-4-5-20250929'', ''claude-opus-4-6'']"

text \<open>A number in a template string: the decimal digits of a natural number.\<close>

definition digit :: "nat \<Rightarrow> char" where
  "digit d = ''0123456789'' ! d"

fun show_nat :: "nat \<Rightarrow> string" where
  "show_nat n =
     (if n < 10 then [digit n]
      else show_nat (n div 10) @ [digit (n mod 10)])"

declare show_nat.simps [simp del]

text \<open>
  \<open>interface PtySession\<close>. The PTY handle and the \<open>WebContents\<close> of the sender are
  numbers that name them.
\<close>

record PtySession =
  sid :: string
  ptyProcess :: nat
  sender :: nat
  model :: string
  cwd :: string
  startTime :: nat

text \<open>The options of \<open>pty:spawn\<close>; an absent \<open>shell\<close> is \<open>False\<close>.\<close>

record spawn_options =
  o_cwd :: "string option"
  o_model :: "string option"
  o_args :: "string list option"
  o_shell :: bool

text \<open>What the handlers do to the world outside the registry, in the order they do it.\<close>

datatype message = PtyData string string | PtyExit string int int

datatype effect =
    PtySpawnCall string "string list" string
  | PtyWrite nat string
  | PtyResize nat int int
  | PtyKill nat
  | Send nat message

text \<open>
  The module state of the PTY bridge: the map \<open>sessions\<close>, \<open>counter\<close> and
  \<open>_cachedLoginPath\<close>, with the effects performed so far. \<open>console.log\<close> is left out.
\<close>

record pty_state =
  sessions :: "string \<rightharpoonup> PtySession"
  counter :: nat
  cachedLoginPath :: "string option"
  effects :: "effect list"

text \<open>\<open>{ id, pid }\<close> or \<open>{ id: null, error }\<close>.\<close>

datatype spawn_result = Spawned string nat | SpawnError string

definition invalidModel :: "string \<Rightarrow> string" where
  "invalidModel m =
     ''Invalid model: '' @ [dq] @ m @ [dq] @ ''. Allowed: '' @ joinWith '', '' ALLOWED_MODELS"

text \<open>
  The block that builds \<open>claudeCmd\<close>, the same text in the Windows and the POSIX branch
  of the handler: \<open>Inl\<close> is the early return with the error.
\<close>

definition claudeCmd :: "host \<Rightarrow> string \<Rightarrow> spawn_options \<Rightarrow> string + string" where
  "claudeCmd h claudePath opts =
     (let claudeArgs = [claudePath] in
      case (case o_model opts of
              None \<Rightarrow> Inr claudeArgs
            | Some m \<Rightarrow>
                if m \<noteq> [] then
                  (if m \<notin> set ALLOWED_MODELS then Inl (invalidModel m)
                   else Inr (claudeArgs @ [''--model'', m]))
                else Inr claudeArgs) of
        Inl err \<Rightarrow> Inl err
      | Inr claudeArgs \<Rightarrow>
          (let claudeArgs = (case o_args opts of None \<Rightarrow> claudeArgs | Some a \<Rightarrow> claudeArgs @ a)
           in Inr (commandLine (shellEscape (isWin h)) claudeArgs)))"

text \<open>The shell and its arguments, or the early return.\<close>

definition shellInvocation ::
  "host \<Rightarrow> string \<Rightarrow> spawn_options \<Rightarrow> string + (string \<times> string list)" where
  "shellInvocation h claudePath opts =
     (if isWin h then
        (let shell = orElse (env h ''COMSPEC'') ''powershell.exe'';
             isPowerShell = (includesStr (toLowerCase shell) ''powershell''
                             \<or> includesStr (toLowerCase shell) ''pwsh'')
         in if o_shell opts then Inr (shell, [])
            else (case claudeCmd h claudePath opts of
                    Inl err \<Rightarrow> Inl err
                  | Inr cmd \<Rightarrow>
                      Inr (shell,
                           if isPowerShell then [''-NoProfile'', ''-Command'', cmd]
                           else [''/c'', cmd])))
      else
        (let shell = orElse (env h ''SHELL'') ''/bin/zsh''
         in if o_shell opts then Inr (shell, [''-l''])
            else (case claudeCmd h claudePath opts of
                    Inl err \<Rightarrow> Inl err
                  | Inr cmd \<Rightarrow> Inr (shell, [''-l'', ''-c'', cmd]))))"

text \<open>
  The id of a new session, \<open>pty-${++counter}-${Date.now()}\<close>, and the environment
  handed to \<open>pty.spawn\<close>.
\<close>

definition ptyId :: "nat \<Rightarrow> nat \<Rightarrow> string" where
  "ptyId n now = ''pty-'' @ show_nat n @ ''-'' @ show_nat now"

definition ptyEnv :: "host \<Rightarrow> string \<Rightarrow> (string \<rightharpoonup> string)" where
  "ptyEnv h userPath =
     (env h)(''PATH'' \<mapsto> userPath, ''TERM'' \<mapsto> ''xterm-256color'',
             ''COLORTERM'' \<mapsto> ''truecolor'')"

text \<open>
  The handler of \<open>pty:spawn\<close>. \<open>claudePath\<close> is the path resolved when the handlers were
  registered, \<open>webContents\<close> the sender of the request, \<open>now\<close> and \<open>later\<close> the two
  readings of \<open>Date.now()\<close>. A call of \<open>pty.spawn\<close> is recorded among the effects
  whether it throws or not.
\<close>

definition pty_spawn ::
  "host \<Rightarrow> string \<Rightarrow> nat \<Rightarrow> spawn_options \<Rightarrow> nat \<Rightarrow> nat \<Rightarrow> pty_state
   \<Rightarrow> spawn_result \<times> pty_state" where
  "pty_spawn h claudePath webContents opts now later st =
     (let st1 = st\<lparr>counter := counter st + 1\<rparr>;
          ident = ptyId (counter st1) now;
          dir = orElse (o_cwd opts) (homedir h);
          (userPath, cached') = buildUserPath h (cachedLoginPath st1);
          st2 = st1\<lparr>cachedLoginPath := cached'\<rparr>;
          penv = ptyEnv h userPath
      in case shellInvocation h claudePath opts of
           Inl err \<Rightarrow> (SpawnError err, st2)
         | Inr (shell, shellArgs) \<Rightarrow>
             (let st3 = st2\<lparr>effects := effects st2 @ [PtySpawnCall shell shellArgs dir]\<rparr>
              in case ptySpawn h shell shellArgs dir penv of
                   Inl msg \<Rightarrow> (SpawnError msg, st3)
                 | Inr pid \<Rightarrow>
                     (Spawned ident pid,
                      st3\<lparr>sessions := (sessions st3)(ident \<mapsto>
                        \<lparr>sid = ident, ptyProcess = pid, sender = webContents,
                         model = orElse (o_model opts) ''default'',
                         cwd = dir, startTime = later\<rparr>)\<rparr>)))"

text \<open>
  The callbacks registered on the PTY handle of a session. The closure holds the
  session record.
\<close>

definition pty_onData :: "host \<Rightarrow> PtySession \<Rightarrow> string \<Rightarrow> pty_state \<Rightarrow> pty_state" where
  "pty_onData h session d st =
     (if \<not> isDestroyed h (sender session)
      then st\<lparr>effects := effects st @ [Send (sender session) (PtyData (sid session) d)]\<rparr>
      else st)"

definition pty_onExit :: "host \<Rightarrow> PtySession \<Rightarrow> int \<Rightarrow> int \<Rightarrow> pty_state \<Rightarrow> pty_state" where
  "pty_onExit h session exitCode signal st =
     (let st1 =
        (if \<not> isDestroyed h (sender session)
         then st\<lparr>effects := effects st
                  @ [Send (sender session) (PtyExit (sid session) exitCode signal)]\<rparr>
         else st)
      in st1\<lparr>sessions := (sessions st1)(sid session := None)\<rparr>)"

text \<open>
  The listeners of \<open>pty:write\<close>, \<open>pty:resize\<close> and \<open>pty:kill\<close>. A listener returns
  nothing; \<open>Inl\<close> is an exception that leaves it.
\<close>

definition pty_write :: "host \<Rightarrow> string \<Rightarrow> string \<Rightarrow> pty_state \<Rightarrow> (string + unit) \<times> pty_state" where
  "pty_write h ident d st =
     (case sessions st ident of
        None \<Rightarrow> (Inr (), st)
      | Some session \<Rightarrow>
          (ptyWrite h (ptyProcess session) d,
           st\<lparr>effects := effects st @ [PtyWrite (ptyProcess session) d]\<rparr>))"

definition pty_resize ::
  "host \<Rightarrow> string \<Rightarrow> int \<Rightarrow> int \<Rightarrow> pty_state \<Rightarrow> (string + unit) \<times> pty_state" where
  "pty_resize h ident cols rows st =
     (case sessions st ident of
        None \<Rightarrow> (Inr (), st)
      | Some session \<Rightarrow>
          (case ptyResize h (ptyProcess session) cols rows of
             Inl e \<Rightarrow> Inr ()
           | Inr u \<Rightarrow> Inr (),
           st\<lparr>effects := effects st @ [PtyResize (ptyProcess session) cols rows]\<rparr>))"

definition pty_kill :: "host \<Rightarrow> string \<Rightarrow> pty_state \<Rightarrow> (string + unit) \<times> pty_state" where
  "pty_kill h ident st =
     (case sessions st ident of
        None \<Rightarrow> (Inr (), st)
      | Some session \<Rightarrow>
          (let st1 = st\<lparr>effects := effects st @ [PtyKill (ptyProcess session)]\<rparr>
           in case ptyKill h (ptyProcess session) of
                Inl e \<Rightarrow> (Inl e, st1)
              | Inr u \<Rightarrow> (Inr (), st1\<lparr>sessions := (sessions st1)(ident := None)\<rparr>)))"

text \<open>The state of a bridge that has just been loaded, and sample requests.\<close>

definition pty_init :: pty_state where
  "pty_init = \<lparr>sessions = Map.empty, counter = 0, cachedLoginPath = None, effects = []\<rparr>"

definition plain_options :: spawn_options where
  "plain_options = \<lparr>o_cwd = None, o_model = None, o_args = None, o_shell = False\<rparr>"

definition one_session :: pty_state where
  "one_session =
     pty_init\<lparr>sessions := [''pty-1-1000'' \<mapsto>
       \<lparr>sid = ''pty-1-1000'', ptyProcess = 4242, sender = 7, model = ''default'',
        cwd = ''/home/u'', startTime = 1001\<rparr>], counter := 1\<rparr>"

section \<open>One-shot executor\<close>

text \<open>The options of \<open>spawnClaude\<close>; the time-out is in whole milliseconds.\<close>

record exec_options =
  x_cwd :: "string option"
  x_timeout :: "nat option"

text \<open>\<open>options.timeout || 60000\<close>: an absent time-out and \<open>0\<close> are falsy.\<close>

definition timeoutOf :: "exec_options \<Rightarrow> nat" where
  "timeoutOf options =
     (case x_timeout options of None \<Rightarrow> 60000 | Some t \<Rightarrow> if t = 0 then 60000 else t)"

text \<open>A call of \<open>child_process.spawn\<close>: the command, its arguments, the working directory.\<close>

datatype spawn_call = SpawnCall string "string list" string

fun call_cwd :: "spawn_call \<Rightarrow> string" where
  "call_cwd (SpawnCall command argv dir) = dir"

text \<open>
  The first half of \<open>spawnClaude\<close>: the process it starts. The environment of the
  process is \<open>getSpawnEnv\<close> in both branches.
\<close>

definition spawnClaude_call ::
  "host \<Rightarrow> string \<Rightarrow> string option \<Rightarrow> string option \<Rightarrow> string list \<Rightarrow> exec_options
   \<Rightarrow> spawn_call" where
  "spawnClaude_call h claudePath nodePath claudeScript args options =
     (let dir = orElse (x_cwd options) (homedir h) in
      if truthy nodePath \<and> truthy claudeScript then
        SpawnCall (orElse nodePath []) (orElse claudeScript [] # args) dir
      else
        (let shell = orElse (env h ''SHELL'') ''/bin/zsh'';
             cmdParts = map cmdPart (claudePath # args)
         in SpawnCall shell [''-l'', ''-c'', joinWith [sp] cmdParts] dir))"

text \<open>
  The second half: the promise and the callbacks. The state holds the two buffers,
  whether the timer is still set, the value the promise was resolved with (a promise
  keeps the first one) and the signals sent to the process.
\<close>

datatype exec_result = ExecResult "int option" string string

datatype proc_event =
    StdoutData string
  | StderrData string
  | Close "int option"
  | ProcError string
  | Timer

record exec_state =
  stdout :: string
  stderr :: string
  timerSet :: bool
  settled :: "exec_result option"
  kills :: "string list"

definition exec_start :: exec_state where
  "exec_start = \<lparr>stdout = [], stderr = [], timerSet = True, settled = None, kills = []\<rparr>"

definition resolve_with :: "exec_result \<Rightarrow> exec_state \<Rightarrow> exec_state" where
  "resolve_with r s = (case settled s of None \<Rightarrow> s\<lparr>settled := Some r\<rparr> | Some r' \<Rightarrow> s)"

text \<open>
  \<open>timeout / 1000\<close> in a template string, for a time-out of whole milliseconds: the
  seconds, and the thousandths without their trailing zeros when there are any.
\<close>

definition show_seconds :: "nat \<Rightarrow> string" where
  "show_seconds ms =
     (let frac = [digit (ms mod 1000 div 100), digit (ms mod 100 div 10), digit (ms mod 10)];
          digits = rev (dropWhile (\<lambda>c. c = CHR ''0'') (rev frac))
      in if digits = [] then show_nat (ms div 1000)
         else show_nat (ms div 1000) @ ''.'' @ digits)"

definition timeoutMessage :: "nat \<Rightarrow> string" where
  "timeoutMessage timeout = ''Timeout after '' @ show_seconds timeout @ ''s''"

text \<open>
  One callback. The timer callback runs only while the timer is set; \<open>close\<close> and
  \<open>error\<close> clear the timer.
\<close>

fun on_event :: "nat \<Rightarrow> proc_event \<Rightarrow> exec_state \<Rightarrow> exec_state" where
  "on_event timeout Timer s =
     (if timerSet s then
        resolve_with
          (ExecResult (Some (- 1)) (stdout s)
             (if stderr s \<noteq> [] then stderr s else timeoutMessage timeout))
          (s\<lparr>timerSet := False, kills := kills s @ [''SIGTERM'']\<rparr>)
      else s)"
| "on_event timeout (StdoutData d) s = s\<lparr>stdout := stdout s @ d\<rparr>"
| "on_event timeout (StderrData d) s = s\<lparr>stderr := stderr s @ d\<rparr>"
| "on_event timeout (Close c) s =
     resolve_with (ExecResult c (stdout s) (stderr s)) (s\<lparr>timerSet := False\<rparr>)"
| "on_event timeout (ProcError e) s =
     resolve_with (ExecResult (Some (- 1)) [] e) (s\<lparr>timerSet := False\<rparr>)"

definition run_events :: "nat \<Rightarrow> proc_event list \<Rightarrow> exec_state \<Rightarrow> exec_state" where
  "run_events timeout evs s = foldl (\<lambda>s e. on_event timeout e s) s evs"

text \<open>The output events, and what a list of them adds to each buffer.\<close>

fun is_output :: "proc_event \<Rightarrow> bool" where
  "is_output (StdoutData d) = True"
| "is_output (StderrData d) = True"
| "is_output e = False"

fun stdout_of :: "proc_event list \<Rightarrow> string" where
  "stdout_of [] = []"
| "stdout_of (StdoutData d # evs) = d @ stdout_of evs"
| "stdout_of (e # evs) = stdout_of evs"

fun stderr_of :: "proc_event list \<Rightarrow> string" where
  "stderr_of [] = []"
| "stderr_of (StderrData d # evs) = d @ stderr_of evs"
| "stderr_of (e # evs) = stderr_of evs"

section \<open>CLI sessions and the script runner\<close>

record ClaudeSession =
  cs_id :: string
  cs_process :: "nat option"
  cs_cwd :: string
  cs_model :: string
  cs_startTime :: nat
  cs_active :: bool

record cli_state =
  cli_sessions :: "string \<rightharpoonup> ClaudeSession"
  sessionCounter :: nat

record start_options =
  s_cwd :: "string option"
  s_model :: "string option"
  s_resume :: bool
  s_args :: "string list option"

definition generateSessionId :: "nat \<Rightarrow> nat \<Rightarrow> string" where
  "generateSessionId n now = ''session-'' @ show_nat n @ ''-'' @ show_nat now"

text \<open>
  The handler of \<open>cli:start-session\<close>: it answers \<open>{ sessionId, cwd }\<close>. The array
  \<open>args\<close> is built and not used.
\<close>

definition cli_startSession ::
  "host \<Rightarrow> start_options \<Rightarrow> nat \<Rightarrow> nat \<Rightarrow> cli_state \<Rightarrow> (string \<times> string) \<times> cli_state" where
  "cli_startSession h options now later st =
     (let st1 = st\<lparr>sessionCounter := sessionCounter st + 1\<rparr>;
          sessionId = generateSessionId (sessionCounter st1) now;
          args = (if truthy (s_model options) then [''--model'', orElse (s_model options) []] else [])
                 @ (if s_resume options then [''-c''] else [])
                 @ (case s_args options of None \<Rightarrow> [] | Some a \<Rightarrow> a);
          dir = orElse (s_cwd options) (process_cwd h);
          session = \<lparr>cs_id = sessionId, cs_process = None, cs_cwd = dir,
                     cs_model = orElse (s_model options) ''default'',
                     cs_startTime = later, cs_active = True\<rparr>
      in ((sessionId, dir), st1\<lparr>cli_sessions := (cli_sessions st1)(sessionId \<mapsto> session)\<rparr>))"

text \<open>
  The handler of \<open>cli:spawn-pty\<close>: the command and the working directory a terminal is
  to be started with (the environment is \<open>getSpawnEnv\<close>), or the error.
\<close>

definition cli_spawnPty :: "string \<Rightarrow> string \<Rightarrow> cli_state \<Rightarrow> string + (string \<times> string)" where
  "cli_spawnPty claudePath sessionId st =
     (case cli_sessions st sessionId of
        None \<Rightarrow> Inl ''Session not found''
      | Some session \<Rightarrow> Inr (claudePath, cs_cwd session))"

text \<open>
  The handler of \<open>cli:run-script\<close>, up to the process it starts: \<open>Inl\<close> is the answer
  for a file type it does not run.
\<close>

definition runScript_call ::
  "host \<Rightarrow> string option \<Rightarrow> string \<Rightarrow> string option \<Rightarrow> string + spawn_call" where
  "runScript_call h nodePath filePath dir =
     (let ext = toLowerCase (last (splitOn CHR ''.'' filePath));
          wd = orElse dir (homedir h)
      in if ext = ''py'' then Inr (SpawnCall ''python3'' [filePath] wd)
         else if ext = ''js'' then Inr (SpawnCall (orElse nodePath ''node'') [filePath] wd)
         else if ext = ''ts'' then Inr (SpawnCall ''npx'' [''tsx'', filePath] wd)
         else if ext = ''sh'' \<or> ext = ''bash'' then Inr (SpawnCall ''bash'' [filePath] wd)
         else Inl (''Unsupported file type: .'' @ ext))"

definition cli_init :: cli_state where
  "cli_init = \<lparr>cli_sessions = Map.empty, sessionCounter = 0\<rparr>"

definition start_plain :: start_options where
  "start_plain = \<lparr>s_cwd = None, s_model = None, s_resume = False, s_args = None\<rparr>"

section \<open>File handlers\<close>

text \<open>The condition of \<open>validatePath\<close> on the resolved path, and the function itself:
  \<open>Inl\<close> is the exception it throws, with its message.\<close>

definition withinAllowed :: "host \<Rightarrow> string \<Rightarrow> bool" where
  "withinAllowed h resolved =
     (let home = homedir h; tmp = tmpdir h in
      resolved = home \<or>
      startsWith resolved (home @ sep h) \<or>
      resolved = tmp \<or>
      startsWith resolved (tmp @ sep h) \<or>
      (\<not> isWin h \<and> (startsWith resolved ''/tmp/'' \<or> resolved = ''/tmp'')))"

definition accessDenied :: "host \<Rightarrow> string \<Rightarrow> string" where
  "accessDenied h resolved =
     ''Access denied: path '' @ [dq] @ resolved @ [dq]
     @ '' is outside allowed directories (home: '' @ homedir h @ '', tmp: '' @ tmpdir h @ '')''"

definition validatePath :: "host \<Rightarrow> string \<Rightarrow> string + string" where
  "validatePath h inputPath =
     (let resolved = resolve h inputPath in
      if withinAllowed h resolved then Inr resolved
      else Inl (accessDenied h resolved))"

text \<open>
  The file system the handlers work on changes under their hands, so every call is
  recorded, and the answer of a call may depend on the calls made before it.
\<close>

datatype syscall =
    ExistsSync string
  | ReadFileSync string
  | WriteFileSync string string
  | MkdirSync string
  | ReaddirSync string
  | StatSync string
  | UnlinkSync string

record fsys =
  fs_existsSync :: "syscall list \<Rightarrow> string \<Rightarrow> bool"
  fs_readFileSync :: "syscall list \<Rightarrow> string \<Rightarrow> string + string"
  fs_writeFileSync :: "syscall list \<Rightarrow> string \<Rightarrow> string \<Rightarrow> string + unit"
  fs_mkdirSync :: "syscall list \<Rightarrow> string \<Rightarrow> string + unit"
  fs_readdirSync :: "syscall list \<Rightarrow> string \<Rightarrow> string + string list"
  fs_statSync :: "syscall list \<Rightarrow> string \<Rightarrow> string + stats"
  fs_unlinkSync :: "syscall list \<Rightarrow> string \<Rightarrow> string + unit"

text \<open>The answers: \<open>{ exists, content, error? }\<close>, \<open>{ success, error? }\<close> and
  \<open>{ exists, entries, error? }\<close>.\<close>

datatype read_result = ReadResult bool "string option" "string option"

datatype ok_result = OkResult bool "string option"

record dir_entry =
  e_name :: string
  e_path :: string
  e_isDirectory :: bool
  e_isFile :: bool
  e_size :: nat
  e_modified :: int
  e_ext :: string

datatype list_result = ListResult bool "dir_entry list" "string option"

text \<open>\<open>fs:read\<close>.\<close>

definition fs_read :: "host \<Rightarrow> fsys \<Rightarrow> string \<Rightarrow> syscall list \<Rightarrow> read_result \<times> syscall list" where
  "fs_read h fs filePath tr =
     (case validatePath h filePath of
        Inl msg \<Rightarrow> (ReadResult False None (Some msg), tr)
      | Inr safePath \<Rightarrow>
          (let tr1 = tr @ [ExistsSync safePath] in
           if \<not> fs_existsSync fs tr safePath then (ReadResult False None None, tr1)
           else
             (case fs_readFileSync fs tr1 safePath of
                Inr content \<Rightarrow> (ReadResult True (Some content) None, tr1 @ [ReadFileSync safePath])
              | Inl msg \<Rightarrow> (ReadResult False None (Some msg), tr1 @ [ReadFileSync safePath]))))"

text \<open>\<open>fs:write\<close>.\<close>

definition fs_write ::
  "host \<Rightarrow> fsys \<Rightarrow> string \<Rightarrow> string \<Rightarrow> syscall list \<Rightarrow> ok_result \<times> syscall list" where
  "fs_write h fs filePath content tr =
     (case validatePath h filePath of
        Inl msg \<Rightarrow> (OkResult False (Some msg), tr)
      | Inr safePath \<Rightarrow>
          (let dir = dirname h safePath;
               tr1 = tr @ [ExistsSync dir];
               (made, tr2) =
                 (if \<not> fs_existsSync fs tr dir
                  then (fs_mkdirSync fs tr1 dir, tr1 @ [MkdirSync dir])
                  else (Inr (), tr1))
           in case made of
                Inl msg \<Rightarrow> (OkResult False (Some msg), tr2)
              | Inr u \<Rightarrow>
                  (case fs_writeFileSync fs tr2 safePath content of
                     Inr u \<Rightarrow> (OkResult True None, tr2 @ [WriteFileSync safePath content])
                   | Inl msg \<Rightarrow>
                       (OkResult False (Some msg), tr2 @ [WriteFileSync safePath content]))))"

text \<open>\<open>fs:exists\<close>.\<close>

definition fs_exists :: "host \<Rightarrow> fsys \<Rightarrow> string \<Rightarrow> syscall list \<Rightarrow> bool \<times> syscall list" where
  "fs_exists h fs filePath tr =
     (case validatePath h filePath of
        Inl msg \<Rightarrow> (False, tr)
      | Inr safePath \<Rightarrow> (fs_existsSync fs tr safePath, tr @ [ExistsSync safePath]))"

text \<open>\<open>fs:list-dir\<close>: the callback of \<open>map\<close>, one name after the other; a \<open>statSync\<close>
  that throws ends the handler.\<close>

fun list_entries ::
  "host \<Rightarrow> fsys \<Rightarrow> string \<Rightarrow> string list \<Rightarrow> syscall list
   \<Rightarrow> (string + dir_entry list) \<times> syscall list" where
  "list_entries h fs safePath [] tr = (Inr [], tr)"
| "list_entries h fs safePath (name # names) tr =
     (let fullPath = join h [safePath, name] in
      case fs_statSync fs tr fullPath of
        Inl msg \<Rightarrow> (Inl msg, tr @ [StatSync fullPath])
      | Inr stat \<Rightarrow>
          (case list_entries h fs safePath names (tr @ [StatSync fullPath]) of
             (Inl msg, tr') \<Rightarrow> (Inl msg, tr')
           | (Inr es, tr') \<Rightarrow>
               (Inr (\<lparr>e_name = name, e_path = fullPath, e_isDirectory = isDirectory stat,
                       e_isFile = isFile stat, e_size = fsize stat, e_modified = mtimeMs stat,
                       e_ext = extname h name\<rparr> # es), tr')))"

definition fs_listDir :: "host \<Rightarrow> fsys \<Rightarrow> string \<Rightarrow> syscall list \<Rightarrow> list_result \<times> syscall list" where
  "fs_listDir h fs dirPath tr =
     (case validatePath h dirPath of
        Inl msg \<Rightarrow> (ListResult False [] (Some msg), tr)
      | Inr safePath \<Rightarrow>
          (let tr1 = tr @ [ExistsSync safePath] in
           if \<not> fs_existsSync fs tr safePath then (ListResult False [] None, tr1)
           else
             (case fs_readdirSync fs tr1 safePath of
                Inl msg \<Rightarrow> (ListResult False [] (Some msg), tr1 @ [ReaddirSync safePath])
              | Inr names \<Rightarrow>
                  (case list_entries h fs safePath names (tr1 @ [ReaddirSync safePath]) of
                     (Inl msg, tr') \<Rightarrow> (ListResult False [] (Some msg), tr')
                   | (Inr entries, tr') \<Rightarrow> (ListResult True entries None, tr')))))"

text \<open>\<open>fs:delete\<close>.\<close>

definition fs_delete :: "host \<Rightarrow> fsys \<Rightarrow> string \<Rightarrow> syscall list \<Rightarrow> ok_result \<times> syscall list" where
  "fs_delete h fs filePath tr =
     (case validatePath h filePath of
        Inl msg \<Rightarrow> (OkResult False (Some msg), tr)
      | Inr safePath \<Rightarrow>
          (let tr1 = tr @ [ExistsSync safePath] in
           if fs_existsSync fs tr safePath then
             (case fs_unlinkSync fs tr1 safePath of
                Inr u \<Rightarrow> (OkResult True None, tr1 @ [UnlinkSync safePath])
              | Inl msg \<Rightarrow> (OkResult False (Some msg), tr1 @ [UnlinkSync safePath]))
           else (OkResult True None, tr1)))"

text \<open>A file system that holds one file, \<open>/etc/passwd\<close>, and lets every call succeed.\<close>

definition sample_fs :: fsys where
  "sample_fs =
     \<lparr> fs_existsSync = (\<lambda>tr p. p = ''/etc/passwd''),
       fs_readFileSync = (\<lambda>tr p. Inr ''root:x:0:0''),
       fs_writeFileSync = (\<lambda>tr p c. Inr ()),
       fs_mkdirSync = (\<lambda>tr p. Inr ()),
       fs_readdirSync = (\<lambda>tr p. Inr []),
       fs_statSync = (\<lambda>tr p. Inl ''ENOENT''),
       fs_unlinkSync = (\<lambda>tr p. Inr ()) \<rparr>"

section \<open>Activity scanner\<close>

datatype location = Project | Scratchpad | ClaudeConfig | Other

text \<open>\<open>interface ActivityFile\<close>.\<close>

record ActivityFile =
  a_name :: string
  a_path :: string
  relativePath :: string
  a_size :: nat
  modified :: int
  ext :: string
  location :: location

text \<open>The options of \<open>fs:scan-activity\<close>; \<open>maxDepth\<close> is \<open>6\<close> when it is left out.\<close>

record scan_options =
  projectDir :: string
  sinceMs :: int
  maxDepth :: "int option"

definition depthLimit :: "scan_options \<Rightarrow> int" where
  "depthLimit options = (case maxDepth options of None \<Rightarrow> 6 | Some d \<Rightarrow> d)"

text \<open>The two variables the scan writes to: the array \<open>results\<close> and the set \<open>seen\<close>.\<close>

record scan_state =
  results :: "ActivityFile list"
  seen :: "string set"

definition noise :: "string \<Rightarrow> bool" where
  "noise name =
     (name = ''node_modules'' \<or> name = ''.git'' \<or> name = ''.DS_Store''
      \<or> name = ''__pycache__'')"

text \<open>The object pushed for a file that qualifies.\<close>

definition activityFile ::
  "host \<Rightarrow> scan_options \<Rightarrow> string \<Rightarrow> string \<Rightarrow> stats \<Rightarrow> location \<Rightarrow> ActivityFile" where
  "activityFile h options name fullPath stat loc =
     \<lparr> a_name = name,
       a_path = fullPath,
       relativePath =
         (if startsWith fullPath (projectDir options)
          then relative h (projectDir options) fullPath
          else if startsWith fullPath (homedir h)
          then ''~/'' @ relative h (homedir h) fullPath
          else fullPath),
       a_size = fsize stat,
       modified = mtimeMs stat,
       ext = toLowerCase (drop 1 (extname h name)),
       location = loc \<rparr>"

text \<open>
  \<open>scanDir\<close>, and the loop over the entries of a directory. A \<open>readdirSync\<close> or
  \<open>statSync\<close> that throws is skipped, as the two \<open>try\<close> blocks do.
\<close>

function scanDir ::
    "host \<Rightarrow> scan_options \<Rightarrow> string \<Rightarrow> location \<Rightarrow> int \<Rightarrow> scan_state \<Rightarrow> scan_state"
  and scanEntries ::
    "host \<Rightarrow> scan_options \<Rightarrow> string \<Rightarrow> location \<Rightarrow> int \<Rightarrow> string list \<Rightarrow> scan_state
     \<Rightarrow> scan_state" where
  "scanDir h options dir loc depth st =
     (if depth > depthLimit options \<or> \<not> existsSync h dir then st
      else
        (case readdirSync h dir of
           Inl e \<Rightarrow> st
         | Inr entries \<Rightarrow> scanEntries h options dir loc depth entries st))"
| "scanEntries h options dir loc depth [] st = st"
| "scanEntries h options dir loc depth (name # names) st =
     (if noise name then scanEntries h options dir loc depth names st
      else
        (let fullPath = join h [dir, name] in
         if fullPath \<in> seen st then scanEntries h options dir loc depth names st
         else
           (let st1 = st\<lparr>seen := insert fullPath (seen st)\<rparr> in
            case statSync h fullPath of
              Inl e \<Rightarrow> scanEntries h options dir loc depth names st1
            | Inr stat \<Rightarrow>
                if isDirectory stat then
                  scanEntries h options dir loc depth names
                    (scanDir h options fullPath loc (depth + 1) st1)
                else if isFile stat \<and> mtimeMs stat \<ge> sinceMs options then
                  scanEntries h options dir loc depth names
                    (st1\<lparr>results := results st1
                        @ [activityFile h options name fullPath stat loc]\<rparr>)
                else scanEntries h options dir loc depth names st1)))"
  by pat_completeness auto
termination
  by (relation "inv_image (less_than <*lex*> less_than)
        (\<lambda>x. case x of
           Inl (h, options, dir, loc, depth, st) \<Rightarrow>
             (2 * nat (depthLimit options + 1 - depth), 0)
         | Inr (h, options, dir, loc, depth, names, st) \<Rightarrow>
             (2 * nat (depthLimit options + 1 - depth) - 1, length names))")
     auto

declare scanDir.simps [simp del]

text \<open>Step 2 of the handler: the scratchpad directories below the temporary
  directories. A \<open>readdirSync\<close> that throws ends the step.\<close>

fun scanScratch :: "host \<Rightarrow> scan_options \<Rightarrow> string \<Rightarrow> string list \<Rightarrow> scan_state \<Rightarrow> scan_state" where
  "scanScratch h options tmpBase [] st = st"
| "scanScratch h options tmpBase (entry # entries) st =
     scanScratch h options tmpBase entries
       (if startsWith entry ''claude-''
        then scanDir h options (join h [tmpBase, entry]) Scratchpad 0 st
        else st)"

fun scanTmpDirs :: "host \<Rightarrow> scan_options \<Rightarrow> string list \<Rightarrow> scan_state \<Rightarrow> scan_state" where
  "scanTmpDirs h options [] st = st"
| "scanTmpDirs h options (tmpBase # tmpDirs) st =
     (if \<not> existsSync h tmpBase then scanTmpDirs h options tmpDirs st
      else
        (case readdirSync h tmpBase of
           Inl e \<Rightarrow> st
         | Inr entries \<Rightarrow> scanTmpDirs h options tmpDirs (scanScratch h options tmpBase entries st)))"

text \<open>
  \<open>Array.prototype.sort\<close> with a comparator: the sort is stable, and an element goes
  before another when the comparator answers a negative number for the pair. For a
  comparator that is consistent, as the one below is, the sorted array is the one
  that insertion from the right builds.
\<close>

fun insertBy :: "('a \<Rightarrow> 'a \<Rightarrow> int) \<Rightarrow> 'a \<Rightarrow> 'a list \<Rightarrow> 'a list" where
  "insertBy cmp x [] = [x]"
| "insertBy cmp x (y # ys) = (if cmp x y \<le> 0 then x # y # ys else y # insertBy cmp x ys)"

fun sortBy :: "('a \<Rightarrow> 'a \<Rightarrow> int) \<Rightarrow> 'a list \<Rightarrow> 'a list" where
  "sortBy cmp [] = []"
| "sortBy cmp (x # xs) = insertBy cmp x (sortBy cmp xs)"

text \<open>The comparator \<open>(a, b) => b.modified - a.modified\<close>.\<close>

definition byNewest :: "ActivityFile \<Rightarrow> ActivityFile \<Rightarrow> int" where
  "byNewest a b = modified b - modified a"

text \<open>The handler of \<open>fs:scan-activity\<close>.\<close>

definition scanActivity :: "host \<Rightarrow> scan_options \<Rightarrow> ActivityFile list" where
  "scanActivity h options =
     (let home = homedir h;
          st0 = \<lparr>results = [], seen = {}\<rparr>;
          st1 = (if existsSync h (projectDir options)
                 then scanDir h options (projectDir options) Project 0 st0 else st0);
          tmpDirs = (if isWin h then [tmpdir h] else [''/private/tmp'', ''/tmp'']);
          st2 = scanTmpDirs h options tmpDirs st1;
          claudeProjectDir = join h [home, ''.claude'', ''projects''];
          st3 = (if existsSync h claudeProjectDir
                 then scanDir h options claudeProjectDir ClaudeConfig 0 st2 else st2)
      in sortBy byNewest (results st3))"

text \<open>
  A sample project on the sample host: an old and a new file, a noise directory, and
  a source directory with the newest file.
\<close>

definition file_at :: "int \<Rightarrow> stats" where
  "file_at t = \<lparr>isDirectory = False, isFile = True, fsize = 10, mtimeMs = t\<rparr>"

definition directory :: stats where
  "directory = \<lparr>isDirectory = True, isFile = False, fsize = 0, mtimeMs = 0\<rparr>"

definition project_host :: host where
  "project_host = sample_host
     \<lparr> existsSync := (\<lambda>p. p \<in> set [''/home/u/proj'', ''/home/u/proj/src'',
                                      ''/home/u/proj/node_modules'']),
       readdirSync := (\<lambda>p.
         if p = ''/home/u/proj'' then Inr [''old.txt'', ''new.txt'', ''node_modules'', ''src'']
         else if p = ''/home/u/proj/src'' then Inr [''main.ts'']
         else if p = ''/home/u/proj/node_modules'' then Inr [''dep.js'']
         else Inl ''ENOENT''),
       statSync := (\<lambda>p.
         if p = ''/home/u/proj/old.txt'' then Inr (file_at 50)
         else if p = ''/home/u/proj/new.txt'' then Inr (file_at 200)
         else if p = ''/home/u/proj/src'' then Inr directory
         else if p = ''/home/u/proj/src/main.ts'' then Inr (file_at 300)
         else if p = ''/home/u/proj/node_modules'' then Inr directory
         else if p = ''/home/u/proj/node_modules/dep.js'' then Inr (file_at 400)
         else Inl ''ENOENT'') \<rparr>"

definition project_scan :: scan_options where
  "project_scan = \<lparr>projectDir = ''/home/u/proj'', sinceMs = 100, maxDepth = None\<rparr>"

section \<open>Shell escaping: proofs\<close>

lemma safe_posix_plain:
  assumes "safe_posix c"
  shows "c \<noteq> sq" and "c \<noteq> bs" and "\<not> sh_blank c" and "\<not> sh_special c"
  using assms
  by (auto simp: safe_posix_def is_alnum_def sq_def bs_def sh_blank_def sh_special_def
      sp_def tab_def nl_def dq_def less_eq_char_def)

lemma sh_read_safe:
  "list_all safe_posix a \<Longrightarrow> a \<noteq> [] \<Longrightarrow>
   sh_read Unquoted cur (a @ rest) = sh_read Unquoted (Some (case_option [] id cur @ a)) rest"
proof (induction a arbitrary: cur)
  case Nil
  then show ?case by simp
next
  case (Cons c cs)
  have c: "c \<noteq> sq" "c \<noteq> bs" "\<not> sh_blank c" "\<not> sh_special c"
    using Cons.prems(1) by (simp_all add: safe_posix_plain)
  show ?case
  proof (cases "cs = []")
    case True
    with c show ?thesis by (cases cur) simp_all
  next
    case False
    with Cons c show ?thesis by (cases cur) simp_all
  qed
qed

lemma replace_char_Nil: "replace_char c r [] = []"
  by (simp add: replace_char_def)

lemma replace_char_Cons:
  "replace_char c r (x # xs) = (if x = c then r else [x]) @ replace_char c r xs"
  by (simp add: replace_char_def)

lemma sh_read_quoted:
  "sh_read InSingle (Some w) (replace_char sq [sq, bs, sq, sq] a @ sq # rest)
   = sh_read Unquoted (Some (w @ a)) rest"
proof (induction a arbitrary: w)
  case Nil
  then show ?case by (simp add: replace_char_Nil)
next
  case (Cons c cs)
  have ne: "sq \<noteq> bs" "bs \<noteq> sq" "sq \<noteq> nl"
    by (simp_all add: sq_def bs_def nl_def)
  show ?case
  proof (cases "c = sq")
    case True
    then show ?thesis
      using Cons.IH [of "w @ [sq]"] ne by (simp add: replace_char_Cons)
  next
    case False
    then show ?thesis
      using Cons.IH [of "w @ [c]"] by (simp add: replace_char_Cons)
  qed
qed

lemma sh_read_escaped:
  "sh_read Unquoted None (shellEscape False a @ rest) = sh_read Unquoted (Some a) rest"
proof (cases "matches_class safe_posix a")
  case True
  then show ?thesis
    using sh_read_safe [of a None rest] by (simp add: shellEscape_def matches_class_def)
next
  case False
  then show ?thesis
    using sh_read_quoted [of "[]" a rest] by (simp add: shellEscape_def)
qed

lemma sh_read_commandLine:
  "sh_read Unquoted None (joinWith [sp] (map (shellEscape False) args)) = Some args"
proof (induction args rule: induct_list012)
  case 1
  then show ?case by simp
next
  case (2 x)
  then show ?case
    using sh_read_escaped [of x "[]"] by simp
next
  case (3 x y zs)
  have blank: "sp \<noteq> sq" "sp \<noteq> bs" "sh_blank sp"
    by (simp_all add: sp_def sq_def bs_def sh_blank_def)
  have "sh_read Unquoted None (joinWith [sp] (map (shellEscape False) (x # y # zs)))
      = sh_read Unquoted (Some x) (sp # joinWith [sp] (map (shellEscape False) (y # zs)))"
    using sh_read_escaped [of x "sp # joinWith [sp] (map (shellEscape False) (y # zs))"]
    by simp
  also have "\<dots> = map_option (Cons x)
      (sh_read Unquoted None (joinWith [sp] (map (shellEscape False) (y # zs))))"
    using blank by simp
  also have "\<dots> = Some (x # y # zs)"
    using "3.IH"(2) by simp
  finally show ?case .
qed


text \<open>
  The argument \<open>it's here\<close>, with a single quote and a space: its escaped form is
  \<open>'it'\''s here'\<close>, which the shell reads back as the one word it came from.
\<close>

lemma shellEscape_example:
  "shellEscape False (''it'' @ [sq] @ ''s here'')
     = [sq] @ ''it'' @ [sq, bs, sq, sq] @ ''s here'' @ [sq]
   \<and> sh_words ([sq] @ ''it'' @ [sq, bs, sq, sq] @ ''s here'' @ [sq])
     = Some [''it'' @ [sq] @ ''s here'']"
  by (simp add: shellEscape_def matches_class_def safe_posix_def is_alnum_def
      replace_char_def sh_words_def sq_def bs_def nl_def sp_def tab_def dq_def
      sh_blank_def sh_special_def)







section \<open>Environment builder and binary resolver: proofs\<close>

lemma splitOn_not_Nil: "splitOn d s \<noteq> []"
  by (induction s) (auto split: list.splits)

lemma splitOn_append:
  "splitOn d (x @ d # rest) = splitOn d x @ splitOn d rest"
proof (induction x)
  case Nil
  then show ?case by simp
next
  case (Cons c cs)
  obtain w ws where w: "splitOn d cs = w # ws"
    using splitOn_not_Nil [of d cs] by (cases "splitOn d cs") auto
  with Cons show ?case by simp
qed

lemma splitOn_joinWith:
  "splitOn d (joinWith [d] parts)
   = (if parts = [] then [[]] else concat (map (splitOn d) parts))"
  by (induction parts rule: induct_list012) (simp_all add: splitOn_append)

lemma firstExisting_None:
  "firstExisting h cs = None \<longleftrightarrow> (\<forall>c \<in> set cs. \<not> existsSync h c)"
  by (induction cs) auto

lemma firstExisting_index:
  "i < length cs \<Longrightarrow> existsSync h (cs ! i) \<Longrightarrow> (\<forall>j < i. \<not> existsSync h (cs ! j)) \<Longrightarrow>
   firstExisting h cs = Some (cs ! i)"
proof (induction cs arbitrary: i)
  case Nil
  then show ?case by simp
next
  case (Cons c cs)
  show ?case
  proof (cases i)
    case 0
    with Cons.prems show ?thesis by simp
  next
    case (Suc k)
    have first: "\<not> existsSync h c"
      using Cons.prems(3) Suc by auto
    have "\<forall>j < k. \<not> existsSync h (cs ! j)"
    proof (intro allI impI)
      fix j assume "j < k"
      then have "Suc j < i" using Suc by simp
      then have "\<not> existsSync h ((c # cs) ! Suc j)" using Cons.prems(3) by blast
      then show "\<not> existsSync h (cs ! j)" by simp
    qed
    then have "firstExisting h cs = Some (cs ! k)"
      using Cons.IH [of k] Cons.prems(1,2) Suc by simp
    then show ?thesis using Suc first by simp
  qed
qed

text \<open>
  Claim C6, as stated, fails: on the sample host the inherited path names
  \<open>/usr/local/bin\<close>, which is also one of the fixed install directories, and the
  directory stands twice in the search path of either bridge.
\<close>

theorem buildUserPath_keeps_duplicates:
  "\<not> distinct (pathEntries (delimiter sample_host) (fst (buildUserPath sample_host None)))
   \<and> \<not> distinct (pathEntries CHR '':'' (cli_buildUserPath sample_host))"
  by (simp add: buildUserPath_def cli_buildUserPath_def getLoginShellPath_def sample_host_def
      extraPaths_def cli_extraPaths_def nvmPaths_def posix_join_def delimiter_def
      pathEntries_def sq_def)

text \<open>
  Claim C6, amended. The search path is the concatenation of its sources in priority
  order (the fixed install directories, the version-manager directory, the login-shell
  path in the PTY bridge, the inherited path), the PTY bridge dropping the sources that
  are empty strings: the entries of the result are the entries of the sources, one after
  the other, every occurrence kept.
\<close>

theorem buildUserPath_entries:
  "pathEntries (delimiter h) (fst (buildUserPath h cached))
     = (let sources = filter (\<lambda>p. p \<noteq> [])
              (extraPaths h @ [fst (getLoginShellPath h cached), orElse (env h ''PATH'') []])
        in if sources = [] then [[]]
           else concat (map (pathEntries (delimiter h)) sources))
   \<and> pathEntries CHR '':'' (cli_buildUserPath h)
     = concat (map (pathEntries CHR '':'')
         (cli_extraPaths h @ [orElse (env h ''PATH'') ''/usr/bin:/bin'']))"
proof -
  have pty: "fst (buildUserPath h cached)
      = joinWith [delimiter h] (filter (\<lambda>p. p \<noteq> [])
          (extraPaths h @ [fst (getLoginShellPath h cached), orElse (env h ''PATH'') []]))"
    by (simp add: buildUserPath_def split: prod.splits)
  have cli: "cli_buildUserPath h
      = joinWith [CHR '':''] (cli_extraPaths h @ [orElse (env h ''PATH'') ''/usr/bin:/bin''])"
    by (simp add: cli_buildUserPath_def)
  show ?thesis
    unfolding pty cli pathEntries_def splitOn_joinWith by (simp add: Let_def)
qed

lemma splitOn_single: "d \<notin> set s \<Longrightarrow> splitOn d s = [s]"
  by (induction s) auto

text \<open>
  Claim C7, as stated, fails in its last step. On a host with Node installed and no
  launcher, no candidate exists and the locate command fails, so the launcher is the
  bare name \<open>claude\<close> and no script is resolved; the interpreter is resolved all the
  same, since it is looked for without regard to the launcher.
\<close>

theorem cli_resolve_finds_interpreter:
  "firstExisting host_node (cli_candidates host_node) = None
   \<and> execSync host_node ''which claude'' (getSpawnEnv host_node) = Inl ''Command failed''
   \<and> cli_getClaudePath host_node = ''claude''
   \<and> cli_resolve host_node = (''claude'', None, Some ''/usr/local/bin/node'')"
  by (simp add: cli_resolve_def cli_getClaudePath_def resolveClaudeScript_def findNodePath_def
      cli_candidates_def host_node_def host_fail_def sample_host_def posix_join_def Let_def)

text \<open>
  Claim C7, amended. Both resolvers return the first candidate of their ordered list
  that exists. When none exists they run the locate command with the enriched path and
  return the first line of its trimmed output; the CLI bridge returns the trimmed
  output as it is, which is that line when the command prints one line. When the
  command fails, both return the bare name \<open>claude\<close>. In the CLI bridge no script
  is then resolved unless that name itself resolves to a file, and a one-shot execution
  goes through the login shell; the interpreter is whatever \<open>findNodePath\<close> finds on
  its own.
\<close>

theorem getClaudePath_chain:
  "(i < length (candidates h) \<and> existsSync h (candidates h ! i)
      \<and> (\<forall>j < i. \<not> existsSync h (candidates h ! j))
      \<longrightarrow> fst (getClaudePath h cached) = candidates h ! i)
   \<and> ((\<forall>c \<in> set (candidates h). \<not> existsSync h c)
      \<and> execSync h (if isWin h then ''where claude'' else ''which claude'')
            ((env h)(''PATH'' \<mapsto> fst (buildUserPath h cached))) = Inr out
      \<longrightarrow> fst (getClaudePath h cached) = hd (splitOn nl (trim out)))
   \<and> ((\<forall>c \<in> set (candidates h). \<not> existsSync h c)
      \<and> execSync h (if isWin h then ''where claude'' else ''which claude'')
            ((env h)(''PATH'' \<mapsto> fst (buildUserPath h cached))) = Inl e
      \<longrightarrow> fst (getClaudePath h cached) = ''claude'')
   \<and> (k < length (cli_candidates h) \<and> existsSync h (cli_candidates h ! k)
      \<and> (\<forall>j < k. \<not> existsSync h (cli_candidates h ! j))
      \<longrightarrow> cli_getClaudePath h = cli_candidates h ! k)
   \<and> ((\<forall>c \<in> set (cli_candidates h). \<not> existsSync h c)
      \<and> execSync h ''which claude'' ((env h)(''PATH'' \<mapsto> cli_buildUserPath h)) = Inr out'
      \<longrightarrow> cli_getClaudePath h = trim out'
          \<and> (nl \<notin> set (trim out') \<longrightarrow> cli_getClaudePath h = hd (splitOn nl (trim out'))))
   \<and> ((\<forall>c \<in> set (cli_candidates h). \<not> existsSync h c)
      \<and> execSync h ''which claude'' ((env h)(''PATH'' \<mapsto> cli_buildUserPath h)) = Inl e'
      \<longrightarrow> cli_getClaudePath h = ''claude'')
   \<and> ((\<forall>c \<in> set (cli_candidates h). \<not> existsSync h c)
      \<and> execSync h ''which claude'' ((env h)(''PATH'' \<mapsto> cli_buildUserPath h)) = Inl e'
      \<and> realpathSync h ''claude'' = Inl e''
      \<longrightarrow> cli_resolve h = (''claude'', None, findNodePath h)
          \<and> spawnClaude_call h ''claude'' (findNodePath h) None args options
              = SpawnCall (orElse (env h ''SHELL'') ''/bin/zsh'')
                  [''-l'', ''-c'', commandLine cmdPart (''claude'' # args)]
                  (orElse (x_cwd options) (homedir h)))"
proof (intro conjI impI)
  assume "i < length (candidates h) \<and> existsSync h (candidates h ! i)
      \<and> (\<forall>j < i. \<not> existsSync h (candidates h ! j))"
  then have "firstExisting h (candidates h) = Some (candidates h ! i)"
    by (simp add: firstExisting_index)
  then show "fst (getClaudePath h cached) = candidates h ! i"
    by (simp add: getClaudePath_def)
next
  assume a: "(\<forall>c \<in> set (candidates h). \<not> existsSync h c)
      \<and> execSync h (if isWin h then ''where claude'' else ''which claude'')
            ((env h)(''PATH'' \<mapsto> fst (buildUserPath h cached))) = Inr out"
  then have "firstExisting h (candidates h) = None"
    by (simp add: firstExisting_None)
  with a show "fst (getClaudePath h cached) = hd (splitOn nl (trim out))"
    by (cases "buildUserPath h cached") (auto simp: getClaudePath_def)
next
  assume a: "(\<forall>c \<in> set (candidates h). \<not> existsSync h c)
      \<and> execSync h (if isWin h then ''where claude'' else ''which claude'')
            ((env h)(''PATH'' \<mapsto> fst (buildUserPath h cached))) = Inl e"
  then have "firstExisting h (candidates h) = None"
    by (simp add: firstExisting_None)
  with a show "fst (getClaudePath h cached) = ''claude''"
    by (cases "buildUserPath h cached") (auto simp: getClaudePath_def)
next
  assume "k < length (cli_candidates h) \<and> existsSync h (cli_candidates h ! k)
      \<and> (\<forall>j < k. \<not> existsSync h (cli_candidates h ! j))"
  then have "firstExisting h (cli_candidates h) = Some (cli_candidates h ! k)"
    by (simp add: firstExisting_index)
  then show "cli_getClaudePath h = cli_candidates h ! k"
    by (simp add: cli_getClaudePath_def)
next
  assume a: "(\<forall>c \<in> set (cli_candidates h). \<not> existsSync h c)
      \<and> execSync h ''which claude'' ((env h)(''PATH'' \<mapsto> cli_buildUserPath h)) = Inr out'"
  then have "firstExisting h (cli_candidates h) = None"
    by (simp add: firstExisting_None)
  with a show whole: "cli_getClaudePath h = trim out'"
    by (simp add: cli_getClaudePath_def getSpawnEnv_def)
  assume "nl \<notin> set (trim out')"
  then show "cli_getClaudePath h = hd (splitOn nl (trim out'))"
    using whole by (simp add: splitOn_single)
next
  assume a: "(\<forall>c \<in> set (cli_candidates h). \<not> existsSync h c)
      \<and> execSync h ''which claude'' ((env h)(''PATH'' \<mapsto> cli_buildUserPath h)) = Inl e'"
  then have "firstExisting h (cli_candidates h) = None"
    by (simp add: firstExisting_None)
  with a show "cli_getClaudePath h = ''claude''"
    by (simp add: cli_getClaudePath_def getSpawnEnv_def)
next
  assume a: "(\<forall>c \<in> set (cli_candidates h). \<not> existsSync h c)
      \<and> execSync h ''which claude'' ((env h)(''PATH'' \<mapsto> cli_buildUserPath h)) = Inl e'
      \<and> realpathSync h ''claude'' = Inl e''"
  then have "firstExisting h (cli_candidates h) = None"
    by (simp add: firstExisting_None)
  with a have bare: "cli_getClaudePath h = ''claude''"
    by (simp add: cli_getClaudePath_def getSpawnEnv_def)
  with a show "cli_resolve h = (''claude'', None, findNodePath h)"
    by (simp add: cli_resolve_def resolveClaudeScript_def)
next
  show "spawnClaude_call h ''claude'' (findNodePath h) None args options
      = SpawnCall (orElse (env h ''SHELL'') ''/bin/zsh'')
          [''-l'', ''-c'', commandLine cmdPart (''claude'' # args)]
          (orElse (x_cwd options) (homedir h))"
    by (simp add: spawnClaude_call_def commandLine_def Let_def)
qed

theorem getClaudePath_chain_witness:
  "fst (getClaudePath host_found None) = ''/usr/local/bin/claude''
   \<and> fst (getClaudePath sample_host None) = ''/opt/claude/bin/claude''
   \<and> fst (getClaudePath host_fail None) = ''claude''
   \<and> cli_getClaudePath host_found = ''/usr/local/bin/claude''
   \<and> cli_getClaudePath sample_host = ''/opt/claude/bin/claude''
   \<and> cli_getClaudePath host_fail = ''claude''
   \<and> cli_resolve host_fail = (''claude'', None, None)
   \<and> spawnClaude_call host_fail ''claude'' None None [''--version'']
        \<lparr>x_cwd = None, x_timeout = Some 10000\<rparr>
       = SpawnCall ''/bin/sh'' [''-l'', ''-c'', ''claude --version''] ''/home/u''"
proof -
  note found = getClaudePath_chain
    [where h = host_found and cached = None and i = "Suc 0" and k = "Suc 0"]
  note listed = getClaudePath_chain
    [where h = sample_host and cached = None
       and out = "''/opt/claude/bin/claude'' @ [nl]"
       and out' = "''/opt/claude/bin/claude'' @ [nl]"]
  note failed = getClaudePath_chain
    [where h = host_fail and cached = None and e = "''Command failed''"
       and e' = "''Command failed''" and e'' = "''ENOENT''" and args = "[''--version'']"
       and options = "\<lparr>x_cwd = None, x_timeout = Some 10000\<rparr>"]
  have cands: "candidates host_found ! Suc 0 = ''/usr/local/bin/claude''"
    "cli_candidates host_found ! Suc 0 = ''/usr/local/bin/claude''"
    by (simp_all add: candidates_def cli_candidates_def host_found_def sample_host_def)
  have p1: "fst (getClaudePath host_found None) = candidates host_found ! Suc 0"
    using found
    by (simp add: candidates_def host_found_def sample_host_def posix_join_def)
  have p4: "cli_getClaudePath host_found = cli_candidates host_found ! Suc 0"
    using found
    by (simp add: cli_candidates_def host_found_def sample_host_def posix_join_def)
  have p2: "fst (getClaudePath sample_host None)
      = hd (splitOn nl (trim (''/opt/claude/bin/claude'' @ [nl])))"
    using listed by (simp add: candidates_def sample_host_def)
  have p5: "cli_getClaudePath sample_host = trim (''/opt/claude/bin/claude'' @ [nl])"
    using listed by (simp add: cli_candidates_def sample_host_def)
  have p3: "fst (getClaudePath host_fail None) = ''claude''"
    using failed by (simp add: candidates_def host_fail_def sample_host_def)
  have p6: "cli_getClaudePath host_fail = ''claude''"
    using failed by (simp add: cli_candidates_def host_fail_def sample_host_def)
  have p7: "cli_resolve host_fail = (''claude'', None, findNodePath host_fail)"
    "spawnClaude_call host_fail ''claude'' (findNodePath host_fail) None [''--version'']
        \<lparr>x_cwd = None, x_timeout = Some 10000\<rparr>
       = SpawnCall (orElse (env host_fail ''SHELL'') ''/bin/zsh'')
           [''-l'', ''-c'', commandLine cmdPart [''claude'', ''--version'']]
           (orElse (x_cwd \<lparr>x_cwd = None, x_timeout = Some 10000\<rparr>) (homedir host_fail))"
    using failed by (simp_all add: cli_candidates_def host_fail_def sample_host_def)
  have node: "findNodePath host_fail = None"
    by (simp add: findNodePath_def host_fail_def sample_host_def getSpawnEnv_def Let_def)
  have line: "commandLine cmdPart [''claude'', ''--version''] = ''claude --version''"
    by (simp add: commandLine_def cmdPart_def matches_class_def safe_posix_def is_alnum_def
        sp_def)
  have sh: "orElse (env host_fail ''SHELL'') ''/bin/zsh'' = ''/bin/sh''"
    "homedir host_fail = ''/home/u''"
    by (simp_all add: host_fail_def sample_host_def)
  have lines: "hd (splitOn nl (trim (''/opt/claude/bin/claude'' @ [nl]))) = ''/opt/claude/bin/claude''"
    "trim (''/opt/claude/bin/claude'' @ [nl]) = ''/opt/claude/bin/claude''"
    by (simp_all add: trim_def is_space_def nl_def)
  show ?thesis
    using p1 p2 p3 p4 p5 p6 p7 cands lines by (simp add: node line sh)
qed

section \<open>PTY session manager: proofs\<close>

lemma claudeCmd_invalid:
  "o_model opts = Some m \<Longrightarrow> m \<noteq> [] \<Longrightarrow> m \<notin> set ALLOWED_MODELS \<Longrightarrow>
   claudeCmd h cp opts = Inl (invalidModel m)"
  by (simp add: claudeCmd_def)

lemma claudeCmd_default:
  "\<not> truthy (o_model opts) \<Longrightarrow>
   claudeCmd h cp opts
   = Inr (commandLine (shellEscape (isWin h))
       (cp # (case o_args opts of None \<Rightarrow> [] | Some a \<Rightarrow> a)))"
  by (cases "o_model opts"; cases "o_args opts") (simp_all add: claudeCmd_def)

lemma shellInvocation_invalid:
  "o_model opts = Some m \<Longrightarrow> m \<noteq> [] \<Longrightarrow> m \<notin> set ALLOWED_MODELS \<Longrightarrow> \<not> o_shell opts \<Longrightarrow>
   shellInvocation h cp opts = Inl (invalidModel m)"
  by (simp add: shellInvocation_def claudeCmd_invalid Let_def)

lemma shellInvocation_default:
  "\<not> truthy (o_model opts) \<Longrightarrow>
   \<exists>shell shellArgs.
     shellInvocation h cp opts = Inr (shell, shellArgs)
     \<and> (\<not> o_shell opts \<longrightarrow>
          shellArgs \<noteq> [] \<and>
          last shellArgs = commandLine (shellEscape (isWin h))
            (cp # (case o_args opts of None \<Rightarrow> [] | Some a \<Rightarrow> a)))"
  by (simp add: shellInvocation_def claudeCmd_default Let_def)

lemma pty_spawn_Inl:
  "shellInvocation h cp opts = Inl err \<Longrightarrow>
   pty_spawn h cp w opts now later st
   = (SpawnError err,
      st\<lparr>counter := counter st + 1,
         cachedLoginPath := snd (buildUserPath h (cachedLoginPath st))\<rparr>)"
  by (simp add: pty_spawn_def Let_def split: prod.splits)

lemma pty_spawn_Inr:
  "shellInvocation h cp opts = Inr (shell, shellArgs) \<Longrightarrow>
   pty_spawn h cp w opts now later st
   = (let dir = orElse (o_cwd opts) (homedir h);
          ident = ptyId (counter st + 1) now;
          st3 = st\<lparr>counter := counter st + 1,
                   cachedLoginPath := snd (buildUserPath h (cachedLoginPath st)),
                   effects := effects st @ [PtySpawnCall shell shellArgs dir]\<rparr>
      in case ptySpawn h shell shellArgs dir
            (ptyEnv h (fst (buildUserPath h (cachedLoginPath st)))) of
           Inl msg \<Rightarrow> (SpawnError msg, st3)
         | Inr pid \<Rightarrow>
             (Spawned ident pid,
              st3\<lparr>sessions := (sessions st)(ident \<mapsto>
                \<lparr>sid = ident, ptyProcess = pid, sender = w,
                 model = orElse (o_model opts) ''default'',
                 cwd = dir, startTime = later\<rparr>)\<rparr>))"
  by (simp add: pty_spawn_def Let_def split: prod.splits sum.splits)

lemma orElse_default: "\<not> truthy x \<Longrightarrow> orElse x d = d"
  by (cases x) simp_all

text \<open>
  Claim C1, as stated, fails in two ways. The empty string is not in the allowlist, and
  a spawn with model \<open>''\<close> goes through. A raw-shell spawn (\<open>shell: true\<close>) with a
  model outside the allowlist goes through as well, and the session is registered under
  that model.
\<close>

theorem pty_spawn_unvalidated_models:
  "[] \<notin> set ALLOWED_MODELS
   \<and> fst (pty_spawn sample_host ''claude'' 7 (plain_options\<lparr>o_model := Some []\<rparr>)
          1000 1001 pty_init) = Spawned ''pty-1-1000'' 4242
   \<and> ''gpt-4'' \<notin> set ALLOWED_MODELS
   \<and> fst (pty_spawn sample_host ''claude'' 7
          (plain_options\<lparr>o_model := Some ''gpt-4'', o_shell := True\<rparr>) 1000 1001 pty_init)
       = Spawned ''pty-1-1000'' 4242
   \<and> map_option model
        (sessions (snd (pty_spawn sample_host ''claude'' 7
           (plain_options\<lparr>o_model := Some ''gpt-4'', o_shell := True\<rparr>) 1000 1001 pty_init))
         ''pty-1-1000'') = Some ''gpt-4''
   \<and> effects (snd (pty_spawn sample_host ''claude'' 7
           (plain_options\<lparr>o_model := Some ''gpt-4'', o_shell := True\<rparr>) 1000 1001 pty_init))
       = [PtySpawnCall ''/bin/sh'' [''-l''] ''/home/u'']"
proof -
  have a: "shellInvocation sample_host ''claude'' (plain_options\<lparr>o_model := Some []\<rparr>)
      = Inr (''/bin/sh'', [''-l'', ''-c'', ''claude''])"
    by (simp add: shellInvocation_def claudeCmd_def plain_options_def sample_host_def
        commandLine_def shellEscape_def matches_class_def safe_posix_def is_alnum_def)
  have b: "shellInvocation sample_host ''claude''
      (plain_options\<lparr>o_model := Some ''gpt-4'', o_shell := True\<rparr>) = Inr (''/bin/sh'', [''-l''])"
    by (simp add: shellInvocation_def plain_options_def sample_host_def)
  have ident: "ptyId (Suc 0) 1000 = ''pty-1-1000''"
    by (simp add: ptyId_def show_nat.simps digit_def)
  have spawn: "ptySpawn sample_host = (\<lambda>shell args cwd e. Inr 4242)"
    "homedir sample_host = ''/home/u''"
    by (simp_all add: sample_host_def)
  have opts: "o_cwd (plain_options\<lparr>o_model := Some []\<rparr>) = None"
    "o_cwd (plain_options\<lparr>o_model := Some ''gpt-4'', o_shell := True\<rparr>) = None"
    "o_model (plain_options\<lparr>o_model := Some ''gpt-4'', o_shell := True\<rparr>) = Some ''gpt-4''"
    by (simp_all add: plain_options_def)
  have init: "counter pty_init = 0" "effects pty_init = []"
    by (simp_all add: pty_init_def)
  show ?thesis
    by (simp add: pty_spawn_Inr [OF a] pty_spawn_Inr [OF b] ident spawn opts init
        ALLOWED_MODELS_def Let_def)
qed

text \<open>
  Claim C1, amended. For every non-empty model string outside the allowlist, a spawn
  that is not a raw-shell spawn returns the error result with the descriptive message,
  leaves the session registry as it was and makes no call of \<open>pty.spawn\<close>.
\<close>

theorem pty_spawn_rejects_model:
  "o_model opts = Some m \<and> m \<noteq> [] \<and> m \<notin> set ALLOWED_MODELS \<and> \<not> o_shell opts \<longrightarrow>
     fst (pty_spawn h cp w opts now later st) = SpawnError (invalidModel m)
     \<and> sessions (snd (pty_spawn h cp w opts now later st)) = sessions st
     \<and> effects (snd (pty_spawn h cp w opts now later st)) = effects st"
proof
  assume a: "o_model opts = Some m \<and> m \<noteq> [] \<and> m \<notin> set ALLOWED_MODELS \<and> \<not> o_shell opts"
  then have "shellInvocation h cp opts = Inl (invalidModel m)"
    by (simp add: shellInvocation_invalid)
  then show "fst (pty_spawn h cp w opts now later st) = SpawnError (invalidModel m)
     \<and> sessions (snd (pty_spawn h cp w opts now later st)) = sessions st
     \<and> effects (snd (pty_spawn h cp w opts now later st)) = effects st"
    by (simp add: pty_spawn_Inl)
qed

theorem pty_spawn_rejects_model_witness:
  "o_model (plain_options\<lparr>o_model := Some ''gpt-4''\<rparr>) = Some ''gpt-4''
   \<and> ''gpt-4'' \<notin> set ALLOWED_MODELS
   \<and> fst (pty_spawn sample_host ''claude'' 7 (plain_options\<lparr>o_model := Some ''gpt-4''\<rparr>)
          1000 1001 one_session) = SpawnError (invalidModel ''gpt-4'')
   \<and> sessions (snd (pty_spawn sample_host ''claude'' 7
          (plain_options\<lparr>o_model := Some ''gpt-4''\<rparr>) 1000 1001 one_session))
       = sessions one_session
   \<and> effects (snd (pty_spawn sample_host ''claude'' 7
          (plain_options\<lparr>o_model := Some ''gpt-4''\<rparr>) 1000 1001 one_session)) = []"
proof -
  have hyp: "o_model (plain_options\<lparr>o_model := Some ''gpt-4''\<rparr>) = Some ''gpt-4''
      \<and> ''gpt-4'' \<noteq> [] \<and> ''gpt-4'' \<notin> set ALLOWED_MODELS
      \<and> \<not> o_shell (plain_options\<lparr>o_model := Some ''gpt-4''\<rparr>)"
    by (simp add: plain_options_def ALLOWED_MODELS_def)
  have "effects one_session = []"
    by (simp add: one_session_def pty_init_def)
  then show ?thesis
    using hyp pty_spawn_rejects_model
      [of "plain_options\<lparr>o_model := Some ''gpt-4''\<rparr>" "''gpt-4''" sample_host "''claude''" 7
          1000 1001 one_session]
    by simp
qed

text \<open>
  Claim C10, as stated, fails in one of its conclusions. With the model option absent
  the caller's own arguments still go into the command line as they are, so a
  \<open>--model\<close> among them is an argument of the command line, here with a model that
  is not in the allowlist.
\<close>

theorem pty_spawn_args_carry_model:
  "\<not> truthy (o_model (plain_options\<lparr>o_args := Some [''--model'', ''gpt-4'']\<rparr>))
   \<and> ''gpt-4'' \<notin> set ALLOWED_MODELS
   \<and> effects (snd (pty_spawn sample_host ''claude'' 7
          (plain_options\<lparr>o_args := Some [''--model'', ''gpt-4'']\<rparr>) 1000 1001 pty_init))
       = [PtySpawnCall ''/bin/sh'' [''-l'', ''-c'', ''claude --model gpt-4''] ''/home/u'']
   \<and> sh_words ''claude --model gpt-4'' = Some [''claude'', ''--model'', ''gpt-4'']"
proof -
  have inv: "shellInvocation sample_host ''claude''
      (plain_options\<lparr>o_args := Some [''--model'', ''gpt-4'']\<rparr>)
      = Inr (''/bin/sh'', [''-l'', ''-c'', ''claude --model gpt-4''])"
    by (simp add: shellInvocation_def claudeCmd_def plain_options_def sample_host_def
        commandLine_def shellEscape_def matches_class_def safe_posix_def is_alnum_def sp_def)
  have opts: "o_cwd (plain_options\<lparr>o_args := Some [''--model'', ''gpt-4'']\<rparr>) = None"
    "\<not> truthy (o_model plain_options)"
    by (simp_all add: plain_options_def)
  have host: "ptySpawn sample_host = (\<lambda>shell args cwd e. Inr 4242)"
    "homedir sample_host = ''/home/u''"
    by (simp_all add: sample_host_def)
  have init: "counter pty_init = 0" "effects pty_init = []"
    by (simp_all add: pty_init_def)
  have words: "sh_words ''claude --model gpt-4'' = Some [''claude'', ''--model'', ''gpt-4'']"
    by (simp add: sh_words_def sq_def bs_def sp_def tab_def nl_def dq_def sh_blank_def
        sh_special_def)
  show ?thesis
    using words by (simp add: pty_spawn_Inr [OF inv] opts host init ALLOWED_MODELS_def Let_def)
qed

text \<open>
  Claim C10, amended. When the model option is absent or the empty string, the handler
  never consults the allowlist: it builds the shell invocation, whose command line is
  the escaped launcher path followed by the caller's own arguments and nothing else
  (the handler adds no \<open>--model\<close> of its own; on POSIX the shell reads the line back
  as exactly the launcher path and those arguments), calls \<open>pty.spawn\<close> with it, and,
  when that call returns a handle, registers the session under the model \<open>default\<close>.
\<close>

theorem pty_spawn_default_model:
  "\<not> truthy (o_model opts) \<longrightarrow>
     (\<exists>shell shellArgs.
        shellInvocation h cp opts = Inr (shell, shellArgs)
        \<and> (\<not> o_shell opts \<longrightarrow>
             shellArgs \<noteq> [] \<and>
             last shellArgs = commandLine (shellEscape (isWin h))
               (cp # (case o_args opts of None \<Rightarrow> [] | Some a \<Rightarrow> a)))
        \<and> (\<not> o_shell opts \<and> \<not> isWin h \<longrightarrow>
             sh_words (last shellArgs)
               = Some (cp # (case o_args opts of None \<Rightarrow> [] | Some a \<Rightarrow> a)))
        \<and> effects (snd (pty_spawn h cp w opts now later st))
            = effects st @ [PtySpawnCall shell shellArgs (orElse (o_cwd opts) (homedir h))]
        \<and> (\<forall>pid. ptySpawn h shell shellArgs (orElse (o_cwd opts) (homedir h))
                    (ptyEnv h (fst (buildUserPath h (cachedLoginPath st)))) = Inr pid
              \<longrightarrow> fst (pty_spawn h cp w opts now later st)
                    = Spawned (ptyId (counter st + 1) now) pid
                  \<and> map_option model
                      (sessions (snd (pty_spawn h cp w opts now later st))
                         (ptyId (counter st + 1) now)) = Some ''default''))"
proof
  assume a: "\<not> truthy (o_model opts)"
  then obtain shell shellArgs where
    inv: "shellInvocation h cp opts = Inr (shell, shellArgs)" and
    cmd: "\<not> o_shell opts \<longrightarrow>
          shellArgs \<noteq> [] \<and>
          last shellArgs = commandLine (shellEscape (isWin h))
            (cp # (case o_args opts of None \<Rightarrow> [] | Some a \<Rightarrow> a))"
    using shellInvocation_default [of opts h cp] by blast
  have words: "\<not> o_shell opts \<and> \<not> isWin h \<longrightarrow>
          sh_words (last shellArgs)
            = Some (cp # (case o_args opts of None \<Rightarrow> [] | Some a \<Rightarrow> a))"
  proof
    assume posix: "\<not> o_shell opts \<and> \<not> isWin h"
    then have "last shellArgs = commandLine (shellEscape False)
        (cp # (case o_args opts of None \<Rightarrow> [] | Some a \<Rightarrow> a))"
      using cmd by simp
    then show "sh_words (last shellArgs)
        = Some (cp # (case o_args opts of None \<Rightarrow> [] | Some a \<Rightarrow> a))"
      using sh_read_commandLine [of "cp # (case o_args opts of None \<Rightarrow> [] | Some a \<Rightarrow> a)"]
      by (simp add: sh_words_def commandLine_def)
  qed
  have eff: "effects (snd (pty_spawn h cp w opts now later st))
      = effects st @ [PtySpawnCall shell shellArgs (orElse (o_cwd opts) (homedir h))]"
    by (simp add: pty_spawn_Inr [OF inv] Let_def split: sum.splits)
  have reg: "\<forall>pid. ptySpawn h shell shellArgs (orElse (o_cwd opts) (homedir h))
                    (ptyEnv h (fst (buildUserPath h (cachedLoginPath st)))) = Inr pid
              \<longrightarrow> fst (pty_spawn h cp w opts now later st)
                    = Spawned (ptyId (counter st + 1) now) pid
                  \<and> map_option model
                      (sessions (snd (pty_spawn h cp w opts now later st))
                         (ptyId (counter st + 1) now)) = Some ''default''"
    using a by (simp add: pty_spawn_Inr [OF inv] Let_def orElse_default)
  show "\<exists>shell shellArgs.
        shellInvocation h cp opts = Inr (shell, shellArgs)
        \<and> (\<not> o_shell opts \<longrightarrow>
             shellArgs \<noteq> [] \<and>
             last shellArgs = commandLine (shellEscape (isWin h))
               (cp # (case o_args opts of None \<Rightarrow> [] | Some a \<Rightarrow> a)))
        \<and> (\<not> o_shell opts \<and> \<not> isWin h \<longrightarrow>
             sh_words (last shellArgs)
               = Some (cp # (case o_args opts of None \<Rightarrow> [] | Some a \<Rightarrow> a)))
        \<and> effects (snd (pty_spawn h cp w opts now later st))
            = effects st @ [PtySpawnCall shell shellArgs (orElse (o_cwd opts) (homedir h))]
        \<and> (\<forall>pid. ptySpawn h shell shellArgs (orElse (o_cwd opts) (homedir h))
                    (ptyEnv h (fst (buildUserPath h (cachedLoginPath st)))) = Inr pid
              \<longrightarrow> fst (pty_spawn h cp w opts now later st)
                    = Spawned (ptyId (counter st + 1) now) pid
                  \<and> map_option model
                      (sessions (snd (pty_spawn h cp w opts now later st))
                         (ptyId (counter st + 1) now)) = Some ''default'')"
    using inv cmd words eff reg by blast
qed

theorem pty_spawn_default_model_witness:
  "\<not> truthy (o_model plain_options)
   \<and> \<not> truthy (o_model (plain_options\<lparr>o_model := Some []\<rparr>))
   \<and> fst (pty_spawn sample_host ''claude'' 7 plain_options 1000 1001 pty_init)
       = Spawned ''pty-1-1000'' 4242
   \<and> map_option model
        (sessions (snd (pty_spawn sample_host ''claude'' 7 plain_options 1000 1001 pty_init))
           ''pty-1-1000'') = Some ''default''
   \<and> effects (snd (pty_spawn sample_host ''claude'' 7 plain_options 1000 1001 pty_init))
       = [PtySpawnCall ''/bin/sh'' [''-l'', ''-c'', ''claude''] ''/home/u'']
   \<and> sh_words ''claude'' = Some [''claude'']"
proof -
  have hyp: "\<not> truthy (o_model plain_options)"
    "\<not> truthy (o_model (plain_options\<lparr>o_model := Some []\<rparr>))"
    by (simp_all add: plain_options_def)
  obtain shell shellArgs where
    inv: "shellInvocation sample_host ''claude'' plain_options = Inr (shell, shellArgs)" and
    words: "\<not> o_shell plain_options \<and> \<not> isWin sample_host \<longrightarrow>
        sh_words (last shellArgs)
          = Some (''claude'' # (case o_args plain_options of None \<Rightarrow> [] | Some a \<Rightarrow> a))" and
    eff: "effects (snd (pty_spawn sample_host ''claude'' 7 plain_options 1000 1001 pty_init))
        = effects pty_init
          @ [PtySpawnCall shell shellArgs (orElse (o_cwd plain_options) (homedir sample_host))]" and
    reg: "\<forall>pid. ptySpawn sample_host shell shellArgs
                 (orElse (o_cwd plain_options) (homedir sample_host))
                 (ptyEnv sample_host
                    (fst (buildUserPath sample_host (cachedLoginPath pty_init)))) = Inr pid
           \<longrightarrow> fst (pty_spawn sample_host ''claude'' 7 plain_options 1000 1001 pty_init)
                 = Spawned (ptyId (counter pty_init + 1) 1000) pid
               \<and> map_option model
                   (sessions (snd (pty_spawn sample_host ''claude'' 7 plain_options
                      1000 1001 pty_init)) (ptyId (counter pty_init + 1) 1000))
                 = Some ''default''"
    using pty_spawn_default_model
      [of plain_options sample_host "''claude''" 7 1000 1001 pty_init] hyp(1)
    by blast
  have "shellInvocation sample_host ''claude'' plain_options
      = Inr (''/bin/sh'', [''-l'', ''-c'', ''claude''])"
    by (simp add: shellInvocation_def claudeCmd_def plain_options_def sample_host_def
        commandLine_def shellEscape_def matches_class_def safe_posix_def is_alnum_def)
  with inv have sh: "shell = ''/bin/sh''" "shellArgs = [''-l'', ''-c'', ''claude'']"
    by simp_all
  have spawn: "ptySpawn sample_host shell shellArgs
                 (orElse (o_cwd plain_options) (homedir sample_host))
                 (ptyEnv sample_host
                    (fst (buildUserPath sample_host (cachedLoginPath pty_init)))) = Inr 4242"
    by (simp add: sample_host_def)
  have ident: "ptyId (Suc (counter pty_init)) 1000 = ''pty-1-1000''"
    by (simp add: ptyId_def show_nat.simps digit_def pty_init_def)
  have dir: "orElse (o_cwd plain_options) (homedir sample_host) = ''/home/u''"
    "effects pty_init = []"
    by (simp_all add: plain_options_def sample_host_def pty_init_def)
  have posix: "\<not> o_shell plain_options" "\<not> isWin sample_host" "o_args plain_options = None"
    by (simp_all add: plain_options_def sample_host_def)
  have read: "sh_words ''claude'' = Some [''claude'']"
    using words posix by (simp add: sh)
  show ?thesis
    using hyp reg spawn eff read by (simp add: ident dir sh)
qed

text \<open>
  Claim C9. For a session id that is not in the registry, \<open>pty:write\<close>,
  \<open>pty:resize\<close> and \<open>pty:kill\<close> return without an exception and leave the whole state
  (registry, sessions, effects) as it was; that is the case in particular for the id of
  a session whose exit callback has run, since the callback removes the entry.
\<close>

theorem pty_absent_session_noop:
  "(sessions st ident = None \<longrightarrow>
      pty_write h ident d st = (Inr (), st)
      \<and> pty_resize h ident cols rows st = (Inr (), st)
      \<and> pty_kill h ident st = (Inr (), st))
   \<and> (let st' = pty_onExit h session exitCode signal st in
        sessions st' (sid session) = None
        \<and> pty_write h (sid session) d st' = (Inr (), st')
        \<and> pty_resize h (sid session) cols rows st' = (Inr (), st')
        \<and> pty_kill h (sid session) st' = (Inr (), st'))"
proof -
  have absent: "\<And>s i. sessions s i = None \<Longrightarrow>
      pty_write h i d s = (Inr (), s)
      \<and> pty_resize h i cols rows s = (Inr (), s)
      \<and> pty_kill h i s = (Inr (), s)"
    by (simp add: pty_write_def pty_resize_def pty_kill_def)
  have gone: "sessions (pty_onExit h session exitCode signal st) (sid session) = None"
    by (simp add: pty_onExit_def Let_def)
  show ?thesis
    using absent [of st ident] absent [OF gone] gone by (simp add: Let_def)
qed

theorem pty_absent_session_noop_witness:
  "sessions pty_init ''pty-1-1000'' = None
   \<and> pty_write sample_host ''pty-1-1000'' ''ls'' pty_init = (Inr (), pty_init)
   \<and> pty_resize sample_host ''pty-1-1000'' 80 30 pty_init = (Inr (), pty_init)
   \<and> pty_kill sample_host ''pty-1-1000'' pty_init = (Inr (), pty_init)
   \<and> sessions one_session ''pty-1-1000'' \<noteq> None
   \<and> pty_write sample_host ''pty-1-1000'' ''ls''
        (pty_onExit sample_host (the (sessions one_session ''pty-1-1000'')) 0 0 one_session)
       = (Inr (), pty_onExit sample_host (the (sessions one_session ''pty-1-1000'')) 0 0
            one_session)"
proof -
  have hyp: "sessions pty_init ''pty-1-1000'' = None"
    by (simp add: pty_init_def)
  have s: "sid (the (sessions one_session ''pty-1-1000'')) = ''pty-1-1000''"
    "sessions one_session ''pty-1-1000'' \<noteq> None"
    by (simp_all add: one_session_def)
  show ?thesis
    using hyp s
      pty_absent_session_noop
        [of pty_init "''pty-1-1000''" sample_host "''ls''" 80 30
            "the (sessions one_session ''pty-1-1000'')" 0 0]
      pty_absent_session_noop
        [of one_session "''pty-1-1000''" sample_host "''ls''" 80 30
            "the (sessions one_session ''pty-1-1000'')" 0 0]
    by (simp add: Let_def)
qed

section \<open>One-shot executor and CLI sessions: proofs\<close>

lemma run_events_Nil: "run_events t [] s = s"
  by (simp add: run_events_def)

lemma run_events_Cons: "run_events t (e # evs) s = run_events t evs (on_event t e s)"
  by (simp add: run_events_def)

lemma run_events_append: "run_events t (xs @ ys) s = run_events t ys (run_events t xs s)"
  by (simp add: run_events_def)

lemma run_events_output:
  "\<forall>e \<in> set evs. is_output e \<Longrightarrow>
   run_events t evs s
   = s\<lparr>stdout := stdout s @ stdout_of evs, stderr := stderr s @ stderr_of evs\<rparr>"
proof (induction evs arbitrary: s)
  case Nil
  then show ?case by (simp add: run_events_Nil)
next
  case (Cons e evs)
  then show ?case
    by (cases e) (simp_all add: run_events_Cons)
qed

lemma settled_stays:
  "settled s = Some r \<Longrightarrow> settled (on_event t e s) = Some r"
  by (cases e) (simp_all add: resolve_with_def)

lemma settled_stays_run:
  "settled s = Some r \<Longrightarrow> settled (run_events t evs s) = Some r"
  by (induction evs arbitrary: s) (simp_all add: run_events_Nil run_events_Cons settled_stays)

text \<open>
  Claim C4. The time-out is exceeded when the timer callback runs before \<open>close\<close> or
  \<open>error\<close>, that is, after output events only. The promise is then resolved with
  exit code \<open>-1\<close>, all the standard output collected so far, and the collected standard
  error or, when that is empty, a message that names the time-out; the process is sent
  \<open>SIGTERM\<close>, once; and whatever happens later does not change the result.
\<close>

theorem timeout_keeps_partial_output:
  "(\<forall>e \<in> set evs. is_output e) \<longrightarrow>
     (let s = run_events (timeoutOf options) (evs @ [Timer]) exec_start in
        settled s
          = Some (ExecResult (Some (- 1)) (stdout_of evs)
              (if stderr_of evs = [] then timeoutMessage (timeoutOf options)
               else stderr_of evs))
        \<and> kills s = [''SIGTERM'']
        \<and> settled (run_events (timeoutOf options) later s) = settled s)"
proof
  assume out: "\<forall>e \<in> set evs. is_output e"
  define t where "t = timeoutOf options"
  define s where "s = run_events t (evs @ [Timer]) exec_start"
  have before: "run_events t evs exec_start
      = exec_start\<lparr>stdout := stdout_of evs, stderr := stderr_of evs\<rparr>"
    using run_events_output [OF out, of t exec_start] by (simp add: exec_start_def)
  have s_eq: "s = on_event t Timer (exec_start\<lparr>stdout := stdout_of evs, stderr := stderr_of evs\<rparr>)"
    by (simp add: s_def run_events_append before run_events_Cons run_events_Nil)
  have res: "settled s
      = Some (ExecResult (Some (- 1)) (stdout_of evs)
          (if stderr_of evs = [] then timeoutMessage t else stderr_of evs))"
    by (simp add: s_eq exec_start_def resolve_with_def)
  have kill: "kills s = [''SIGTERM'']"
    by (simp add: s_eq exec_start_def resolve_with_def)
  have stay: "settled (run_events t later s) = settled s"
    using settled_stays_run [of s _ t later] res by simp
  show "let s = run_events (timeoutOf options) (evs @ [Timer]) exec_start in
        settled s
          = Some (ExecResult (Some (- 1)) (stdout_of evs)
              (if stderr_of evs = [] then timeoutMessage (timeoutOf options)
               else stderr_of evs))
        \<and> kills s = [''SIGTERM'']
        \<and> settled (run_events (timeoutOf options) later s) = settled s"
    using res kill stay by (simp add: Let_def s_def t_def)
qed

theorem timeout_keeps_partial_output_witness:
  "list_all is_output [StdoutData ''par'', StderrData ''warn'', StdoutData ''tial'']
   \<and> settled (run_events 10000 [StdoutData ''par'', StdoutData ''tial'', Timer] exec_start)
       = Some (ExecResult (Some (- 1)) ''partial'' ''Timeout after 10s'')
   \<and> settled (run_events 10000
        [StdoutData ''par'', StderrData ''warn'', StdoutData ''tial'', Timer, Close (Some 0)]
        exec_start)
       = Some (ExecResult (Some (- 1)) ''partial'' ''warn'')
   \<and> kills (run_events 10000
        [StdoutData ''par'', StderrData ''warn'', StdoutData ''tial'', Timer] exec_start)
       = [''SIGTERM'']"
proof -
  have t: "timeoutOf \<lparr>x_cwd = None, x_timeout = Some 10000\<rparr> = 10000"
    by (simp add: timeoutOf_def)
  have msg: "timeoutMessage 10000 = ''Timeout after 10s''"
    by (simp add: timeoutMessage_def show_seconds_def show_nat.simps digit_def)
  have h1: "\<forall>e \<in> set [StdoutData ''par'', StdoutData ''tial'']. is_output e"
    by simp
  have h2: "\<forall>e \<in> set [StdoutData ''par'', StderrData ''warn'', StdoutData ''tial'']. is_output e"
    by simp
  note a = timeout_keeps_partial_output
    [of "[StdoutData ''par'', StdoutData ''tial'']" "\<lparr>x_cwd = None, x_timeout = Some 10000\<rparr>"
        "[]"]
  note b = timeout_keeps_partial_output
    [of "[StdoutData ''par'', StderrData ''warn'', StdoutData ''tial'']"
        "\<lparr>x_cwd = None, x_timeout = Some 10000\<rparr>" "[Close (Some 0)]"]
  have ra: "settled (run_events 10000 [StdoutData ''par'', StdoutData ''tial'', Timer] exec_start)
       = Some (ExecResult (Some (- 1)) ''partial'' ''Timeout after 10s'')"
    using a h1 by (simp add: t msg Let_def)
  have rb: "settled (run_events 10000
        [StdoutData ''par'', StderrData ''warn'', StdoutData ''tial'', Timer, Close (Some 0)]
        exec_start)
       = Some (ExecResult (Some (- 1)) ''partial'' ''warn'')"
    "kills (run_events 10000
        [StdoutData ''par'', StderrData ''warn'', StdoutData ''tial'', Timer] exec_start)
       = [''SIGTERM'']"
    using b h2 run_events_append
      [of 10000 "[StdoutData ''par'', StderrData ''warn'', StdoutData ''tial'', Timer]"
          "[Close (Some 0)]" exec_start]
    by (simp_all add: t Let_def)
  show ?thesis
    using h1 ra rb by simp
qed

lemma spawn_cwd_default_home:
  assumes "\<not> truthy dir"
  shows "call_cwd (spawnClaude_call h claudePath nodePath claudeScript args
            \<lparr>x_cwd = dir, x_timeout = t\<rparr>) = homedir h"
    and "runScript_call h nodePath filePath dir = Inr c \<Longrightarrow> call_cwd c = homedir h"
    and "shellInvocation h claudePath (opts\<lparr>o_cwd := dir\<rparr>) = Inr (shell, shellArgs) \<Longrightarrow>
         effects (snd (pty_spawn h claudePath w (opts\<lparr>o_cwd := dir\<rparr>) now later st))
         = effects st @ [PtySpawnCall shell shellArgs (homedir h)]"
proof -
  have d: "orElse dir (homedir h) = homedir h"
    using assms by (simp add: orElse_default)
  show "call_cwd (spawnClaude_call h claudePath nodePath claudeScript args
            \<lparr>x_cwd = dir, x_timeout = t\<rparr>) = homedir h"
    by (simp add: spawnClaude_call_def Let_def d)
  show "runScript_call h nodePath filePath dir = Inr c \<Longrightarrow> call_cwd c = homedir h"
    by (auto simp: runScript_call_def Let_def d split: if_splits)
  show "shellInvocation h claudePath (opts\<lparr>o_cwd := dir\<rparr>) = Inr (shell, shellArgs) \<Longrightarrow>
         effects (snd (pty_spawn h claudePath w (opts\<lparr>o_cwd := dir\<rparr>) now later st))
         = effects st @ [PtySpawnCall shell shellArgs (homedir h)]"
    by (simp add: pty_spawn_Inr Let_def d split: sum.splits)
qed

lemma cli_startSession_cwd:
  "\<not> truthy (s_cwd options) \<Longrightarrow>
   snd (fst (cli_startSession h options now later st)) = process_cwd h"
  by (simp add: cli_startSession_def Let_def orElse_default)

text \<open>
  Claim C5 at a failing input. \<open>cli:start-session\<close> called without a working directory
  on the sample host, whose process runs in \<open>/\<close> and whose user lives in \<open>/home/u\<close>:
  the session is given the working directory of the host process, and
  \<open>cli:spawn-pty\<close> hands that directory on as the one to start the terminal in.
\<close>

theorem cli_startSession_uses_process_cwd:
  "s_cwd start_plain = None
   \<and> homedir sample_host = ''/home/u''
   \<and> process_cwd sample_host = ''/''
   \<and> fst (cli_startSession sample_host start_plain 1000 1001 cli_init)
       = (''session-1-1000'', ''/'')
   \<and> cli_spawnPty ''claude'' ''session-1-1000''
        (snd (cli_startSession sample_host start_plain 1000 1001 cli_init))
       = Inr (''claude'', ''/'')"
  by (simp add: cli_startSession_def cli_spawnPty_def start_plain_def cli_init_def
      sample_host_def generateSessionId_def show_nat.simps digit_def Let_def)

section \<open>File handlers: proofs\<close>

lemma validatePath_outside:
  "\<not> withinAllowed h (resolve h p) \<Longrightarrow> validatePath h p = Inl (accessDenied h (resolve h p))"
  by (simp add: validatePath_def)

text \<open>
  Claim C2. Each of the five handlers resolves its path argument and checks it first.
  When the resolved path is neither the home directory, nor the temporary directory
  (on POSIX also \<open>/tmp\<close>, whatever \<open>tmpdir()\<close> answers), nor below one of them, the
  handler makes no file system call at all and answers its failure value: the error
  result that carries the message of the refusal, or \<open>false\<close> for \<open>exists\<close>. The
  refusal never leaves the handler as an exception.
\<close>

theorem handlers_fail_closed:
  "\<not> withinAllowed h (resolve h p) \<longrightarrow>
     fs_read h fs p tr = (ReadResult False None (Some (accessDenied h (resolve h p))), tr)
     \<and> fs_write h fs p content tr = (OkResult False (Some (accessDenied h (resolve h p))), tr)
     \<and> fs_exists h fs p tr = (False, tr)
     \<and> fs_listDir h fs p tr = (ListResult False [] (Some (accessDenied h (resolve h p))), tr)
     \<and> fs_delete h fs p tr = (OkResult False (Some (accessDenied h (resolve h p))), tr)"
  by (simp add: validatePath_outside fs_read_def fs_write_def fs_exists_def fs_listDir_def
      fs_delete_def)

theorem handlers_fail_closed_witness:
  "\<not> withinAllowed sample_host (resolve sample_host ''/etc/passwd'')
   \<and> fs_existsSync sample_fs [] ''/etc/passwd''
   \<and> fs_read sample_host sample_fs ''/etc/passwd'' []
       = (ReadResult False None (Some (accessDenied sample_host ''/etc/passwd'')), [])
   \<and> fs_write sample_host sample_fs ''/etc/passwd'' ''x'' []
       = (OkResult False (Some (accessDenied sample_host ''/etc/passwd'')), [])
   \<and> fs_exists sample_host sample_fs ''/etc/passwd'' [] = (False, [])
   \<and> fs_listDir sample_host sample_fs ''/etc/passwd'' []
       = (ListResult False [] (Some (accessDenied sample_host ''/etc/passwd'')), [])
   \<and> fs_delete sample_host sample_fs ''/etc/passwd'' []
       = (OkResult False (Some (accessDenied sample_host ''/etc/passwd'')), [])"
proof -
  have r: "resolve sample_host ''/etc/passwd'' = ''/etc/passwd''"
    by (simp add: sample_host_def)
  have hyp: "\<not> withinAllowed sample_host (resolve sample_host ''/etc/passwd'')"
    by (simp add: withinAllowed_def sample_host_def startsWith_def sep_def Let_def)
  have ex: "fs_existsSync sample_fs [] ''/etc/passwd''"
    by (simp add: sample_fs_def)
  show ?thesis
    using hyp ex handlers_fail_closed [of sample_host "''/etc/passwd''" sample_fs "[]" "''x''"]
    by (simp add: r)
qed

section \<open>Activity scanner: proofs\<close>

lemma scanEntries_skip:
  "noise name \<or> join h [dir, name] \<in> seen st \<Longrightarrow>
   scanEntries h options dir loc depth (name # names) st
   = scanEntries h options dir loc depth names st"
  by (auto simp: Let_def)

lemma scanEntries_visit:
  assumes "\<not> noise name" and "join h [dir, name] \<notin> seen st"
  shows "scanEntries h options dir loc depth (name # names) st
   = (let fullPath = join h [dir, name];
          st1 = st\<lparr>seen := insert fullPath (seen st)\<rparr>
      in scanEntries h options dir loc depth names
           (case statSync h fullPath of
              Inl e \<Rightarrow> st1
            | Inr stat \<Rightarrow>
                if isDirectory stat then scanDir h options fullPath loc (depth + 1) st1
                else if isFile stat \<and> mtimeMs stat \<ge> sinceMs options
                then st1\<lparr>results := results st1
                       @ [activityFile h options name fullPath stat loc]\<rparr>
                else st1))"
  using assms by (simp add: Let_def split: sum.splits)

lemma scanDir_recent:
  "(\<forall>f \<in> set (results st). sinceMs options \<le> modified f) \<Longrightarrow>
   (\<forall>f \<in> set (results (scanDir h options dir loc depth st)). sinceMs options \<le> modified f)"
  and scanEntries_recent:
  "(\<forall>f \<in> set (results st). sinceMs options \<le> modified f) \<Longrightarrow>
   (\<forall>f \<in> set (results (scanEntries h options dir loc depth names st)).
      sinceMs options \<le> modified f)"
proof (induction h options dir loc depth st and h options dir loc depth names st
    rule: scanDir_scanEntries.induct)
  case (1 h options dir loc depth st)
  then show ?case
    by (auto simp: scanDir.simps split: sum.splits)
next
  case (2 h options dir loc depth st)
  then show ?case by simp
next
  case (3 h options dir loc depth name names st)
  let ?fullPath = "join h [dir, name]"
  let ?st1 = "st\<lparr>seen := insert ?fullPath (seen st)\<rparr>"
  let ?inv = "\<lambda>s. \<forall>f \<in> set (results s). sinceMs options \<le> modified f"
  have inv1: "?inv ?st1"
    using "3.prems" by simp
  show ?case
  proof (cases "noise name")
    case True
    then have "scanEntries h options dir loc depth (name # names) st
        = scanEntries h options dir loc depth names st"
      by (simp add: scanEntries_skip)
    then show ?thesis
      using "3.IH"(1) [OF True "3.prems"] by simp
  next
    case visible: False
    show ?thesis
    proof (cases "?fullPath \<in> seen st")
      case True
      then have "scanEntries h options dir loc depth (name # names) st
          = scanEntries h options dir loc depth names st"
        by (simp add: scanEntries_skip)
      then show ?thesis
        using "3.IH"(2) [OF visible refl True "3.prems"] by simp
    next
      case fresh: False
      note step = scanEntries_visit [OF visible fresh, of options loc depth names]
      show ?thesis
      proof (cases "statSync h ?fullPath")
        case (Inl e)
        have "?inv (scanEntries h options dir loc depth names ?st1)"
          using "3.IH"(3) [OF visible refl fresh refl Inl inv1] .
        then show ?thesis
          unfolding step Let_def Inl by simp
      next
        case (Inr stat)
        show ?thesis
        proof (cases "isDirectory stat")
          case True
          have sub: "?inv (scanDir h options ?fullPath loc (depth + 1) ?st1)"
            using "3.IH"(4) [OF visible refl fresh refl Inr True inv1] .
          have "?inv (scanEntries h options dir loc depth names
                  (scanDir h options ?fullPath loc (depth + 1) ?st1))"
            using "3.IH"(5) [OF visible refl fresh refl Inr True sub] .
          then show ?thesis
            unfolding step Let_def Inr using True by simp
        next
          case notdir: False
          show ?thesis
          proof (cases "isFile stat \<and> sinceMs options \<le> mtimeMs stat")
            case True
            have pushed: "?inv (?st1\<lparr>results := results ?st1
                  @ [activityFile h options name ?fullPath stat loc]\<rparr>)"
              using "3.prems" True by (simp add: activityFile_def)
            have "?inv (scanEntries h options dir loc depth names
                    (?st1\<lparr>results := results ?st1
                       @ [activityFile h options name ?fullPath stat loc]\<rparr>))"
              using "3.IH"(6) [OF visible refl fresh refl Inr notdir True pushed] .
            then show ?thesis
              unfolding step Let_def Inr using notdir True by simp
          next
            case False
            have "?inv (scanEntries h options dir loc depth names ?st1)"
              using "3.IH"(7) [OF visible refl fresh refl Inr notdir False inv1] .
            then show ?thesis
              unfolding step Let_def Inr using notdir False by auto
          qed
        qed
      qed
    qed
  qed
qed

lemma scanScratch_recent:
  "(\<forall>f \<in> set (results st). sinceMs options \<le> modified f) \<Longrightarrow>
   (\<forall>f \<in> set (results (scanScratch h options tmpBase entries st)).
      sinceMs options \<le> modified f)"
proof (induction entries arbitrary: st)
  case Nil
  then show ?case by simp
next
  case (Cons entry entries)
  have "\<forall>f \<in> set (results (if startsWith entry ''claude-''
        then scanDir h options (join h [tmpBase, entry]) Scratchpad 0 st else st)).
      sinceMs options \<le> modified f"
    using Cons.prems scanDir_recent [of st options h "join h [tmpBase, entry]" Scratchpad 0]
    by simp
  then show ?case
    using Cons.IH by simp
qed

lemma scanTmpDirs_recent:
  "(\<forall>f \<in> set (results st). sinceMs options \<le> modified f) \<Longrightarrow>
   (\<forall>f \<in> set (results (scanTmpDirs h options tmpDirs st)). sinceMs options \<le> modified f)"
proof (induction tmpDirs arbitrary: st)
  case Nil
  then show ?case by simp
next
  case (Cons tmpBase tmpDirs)
  show ?case
  proof (cases "readdirSync h tmpBase")
    case (Inl e)
    then show ?thesis
      using Cons by simp
  next
    case (Inr entries)
    then show ?thesis
      using Cons.IH [of st] Cons.IH [of "scanScratch h options tmpBase entries st"]
        scanScratch_recent [OF Cons.prems, of h tmpBase entries] Cons.prems
      by simp
  qed
qed

lemma set_insertBy: "set (insertBy cmp x ys) = insert x (set ys)"
  by (induction ys) auto

lemma set_sortBy: "set (sortBy cmp xs) = set xs"
  by (induction xs) (simp_all add: set_insertBy)

lemma newest_first_insertBy:
  "sorted_wrt (\<lambda>a b. modified b \<le> modified a) ys \<Longrightarrow>
   sorted_wrt (\<lambda>a b. modified b \<le> modified a) (insertBy byNewest x ys)"
  by (induction ys) (auto simp: set_insertBy byNewest_def)

lemma newest_first_sortBy:
  "sorted_wrt (\<lambda>a b. modified b \<le> modified a) (sortBy byNewest xs)"
  by (induction xs) (simp_all add: newest_first_insertBy)

text \<open>
  Claim C8. Every file the activity scan returns was modified at or after the given
  time stamp, and the list is in descending order of modification time, newest first.
\<close>

theorem scanActivity_recent_newest_first:
  "(\<forall>f \<in> set (scanActivity h options). sinceMs options \<le> modified f)
   \<and> sorted_wrt (\<lambda>a b. modified b \<le> modified a) (scanActivity h options)"
proof -
  define st0 where "st0 = \<lparr>results = [], seen = {}\<rparr>"
  define st1 where "st1 = (if existsSync h (projectDir options)
      then scanDir h options (projectDir options) Project 0 st0 else st0)"
  define st2 where "st2 = scanTmpDirs h options
      (if isWin h then [tmpdir h] else [''/private/tmp'', ''/tmp'']) st1"
  define st3 where "st3 = (if existsSync h (join h [homedir h, ''.claude'', ''projects''])
      then scanDir h options (join h [homedir h, ''.claude'', ''projects'']) ClaudeConfig 0 st2
      else st2)"
  have out: "scanActivity h options = sortBy byNewest (results st3)"
    by (simp add: scanActivity_def st3_def st2_def st1_def st0_def Let_def)
  have i0: "\<forall>f \<in> set (results st0). sinceMs options \<le> modified f"
    by (simp add: st0_def)
  have i1: "\<forall>f \<in> set (results st1). sinceMs options \<le> modified f"
    unfolding st1_def using i0 scanDir_recent [OF i0] by simp
  have i2: "\<forall>f \<in> set (results st2). sinceMs options \<le> modified f"
    unfolding st2_def using scanTmpDirs_recent [OF i1] by blast
  have i3: "\<forall>f \<in> set (results st3). sinceMs options \<le> modified f"
    unfolding st3_def using i2 scanDir_recent [OF i2] by simp
  show ?thesis
    using i3 by (simp add: out set_sortBy newest_first_sortBy)
qed

theorem scanActivity_recent_newest_first_witness:
  "map a_name (scanActivity project_host project_scan) = [''main.ts'', ''new.txt'']
   \<and> map modified (scanActivity project_host project_scan) = [300, 200]
   \<and> list_all (\<lambda>f. sinceMs project_scan \<le> modified f) (scanActivity project_host project_scan)
   \<and> sorted_wrt (\<lambda>a b. modified b \<le> modified a) (scanActivity project_host project_scan)"
proof -
  have run: "map (\<lambda>f. (a_name f, modified f)) (scanActivity project_host project_scan)
      = [(''main.ts'', 300), (''new.txt'', 200)]"
    by code_simp
  have names: "map a_name (scanActivity project_host project_scan) = [''main.ts'', ''new.txt'']"
    using arg_cong [OF run, of "map fst"] by (simp add: comp_def)
  have times: "map modified (scanActivity project_host project_scan) = [300, 200]"
    using arg_cong [OF run, of "map snd"] by (simp add: comp_def)
  show ?thesis
    using names times scanActivity_recent_newest_first [of project_host project_scan]
    by (simp add: list_all_iff)
qed

end
